theory Spec2Isabelle
  imports
    Main
    "HOL-Library.AList"
    "HOL-Library.Char_ord"
    "HOL-Library.List_Lexorder"
begin

chapter \<open>Device pairing and credential sync of openclaw-docker\<close>

text \<open>
  A shallow embedding of the TypeScript scripts of the repository: the shared approval
  logic (\<^verbatim>\<open>scripts/lib/device-pairing.ts\<close>), the self-approval daemon in its two
  versions, the manual approval tool, and the credential-sync daemon. The scripts read
  the clock, a random generator and the file system; in the model these readings are
  parameters of the functions, and a thrown error is a value.
\<close>

section \<open>Strings, identifiers and JSON values\<close>

text \<open>
  A JavaScript string is a sequence of code units. The model covers the strings whose
  code units are below 256, one \<^typ>\<open>char\<close> per code unit; the order on strings
  (lexicographic, by code unit) is the one \<^verbatim>\<open>Array.prototype.sort\<close> uses by default.
  \<^verbatim>\<open>String.prototype.trim\<close> removes white space and line terminators at both ends;
  below 256 these are the code units 9 to 13, 32 and 160.
\<close>

definition isWhite :: "char \<Rightarrow> bool" where
  "isWhite c = (c \<in> set [CHR 0x09, CHR 0x0A, CHR 0x0B, CHR 0x0C, CHR 0x0D, CHR 0x20, CHR 0xA0])"

definition trim :: "string \<Rightarrow> string" where
  "trim s = rev (dropWhile isWhite (rev (dropWhile isWhite s)))"

text \<open>
  \<^verbatim>\<open>const SAFE_ID_RE = /^[a-zA-Z0-9_\-:.]+$/\<close>: without the multiline flag the pattern
  matches the whole string, one or more characters of the class.
\<close>

definition safeIdChar :: "char \<Rightarrow> bool" where
  "safeIdChar c =
     (let n = (of_char c :: nat)
      in (97 \<le> n \<and> n \<le> 122) \<or> (65 \<le> n \<and> n \<le> 90) \<or> (48 \<le> n \<and> n \<le> 57)
         \<or> c = CHR ''_'' \<or> c = CHR ''-'' \<or> c = CHR '':'' \<or> c = CHR ''.'')"

definition isValidId :: "string \<Rightarrow> bool" where
  "isValidId v = (v \<noteq> [] \<and> list_all safeIdChar v)"

text \<open>
  The entries of the role and scope arrays are \<^verbatim>\<open>unknown\<close> to the helpers
  (\<^verbatim>\<open>items: Array<unknown>\<close>): a string or any other JSON scalar.
\<close>

datatype jsval = JStr string | JNum int | JBool bool | JNull

text \<open>
  A \<^verbatim>\<open>Record<string, T>\<close> read from a JSON document is an association list, its
  keys in the order \<^verbatim>\<open>Object.keys\<close> lists them; \<open>map_of\<close> reads an own property,
  \<open>AList.update\<close> is the spread with one computed key, \<open>AList.delete\<close> the rest
  pattern without one key. A property read \<^verbatim>\<open>obj[k]\<close> finds the object's own property
  first; for a key that the object does not own, the read walks to
  \<^verbatim>\<open>Object.prototype\<close>, whose properties are all truthy and carry none of the fields
  the scripts read.
\<close>

datatype 'a lookup = Own 'a | Inherited | Absent

definition objectPrototypeNames :: "string list" where
  "objectPrototypeNames =
     [''constructor'', ''__defineGetter__'', ''__defineSetter__'', ''hasOwnProperty'',
      ''__lookupGetter__'', ''__lookupSetter__'', ''isPrototypeOf'', ''propertyIsEnumerable'',
      ''toString'', ''valueOf'', ''__proto__'', ''toLocaleString'']"

definition jsGet :: "(string \<times> 'a) list \<Rightarrow> string \<Rightarrow> 'a lookup" where
  "jsGet obj k =
     (case map_of obj k of
        Some v \<Rightarrow> Own v
      | None \<Rightarrow> if k \<in> set objectPrototypeNames then Inherited else Absent)"

section \<open>The pairing data model (device-pairing.ts)\<close>

text \<open>
  The three types of the module, field for field (each field name carries a prefix for
  its type). An optional field is an \<open>option\<close>; so is \<^verbatim>\<open>deviceId\<close>, which the
  code reads with \<^verbatim>\<open>?? ""\<close>. Timestamps are integers, milliseconds since the epoch.
\<close>

record PendingRequest =
  rq_requestId :: string
  rq_deviceId :: "string option"
  rq_publicKey :: "string option"
  rq_displayName :: "string option"
  rq_platform :: "string option"
  rq_clientId :: "string option"
  rq_clientMode :: "string option"
  rq_role :: "string option"
  rq_roles :: "jsval list option"
  rq_scopes :: "jsval list option"
  rq_remoteIp :: "string option"
  rq_silent :: "bool option"
  rq_isRepair :: "bool option"
  rq_ts :: int

record DeviceToken =
  tk_token :: string
  tk_role :: string
  tk_scopes :: "string list"
  tk_createdAtMs :: int
  tk_rotatedAtMs :: "int option"
  tk_revokedAtMs :: "int option"
  tk_lastUsedAtMs :: "int option"

record PairedDevice =
  pd_deviceId :: string
  pd_publicKey :: "string option"
  pd_displayName :: "string option"
  pd_platform :: "string option"
  pd_clientId :: "string option"
  pd_clientMode :: "string option"
  pd_role :: "string option"
  pd_roles :: "jsval list option"
  pd_scopes :: "jsval list option"
  pd_remoteIp :: "string option"
  pd_tokens :: "(string \<times> DeviceToken) list option"
  pd_createdAtMs :: int
  pd_approvedAtMs :: int

record ApprovalResult =
  ar_deviceId :: string
  ar_updatedPendingById :: "(string \<times> PendingRequest) list"
  ar_updatedPairedByDeviceId :: "(string \<times> PairedDevice) list"

text \<open>The four \<^verbatim>\<open>throw new Error(...)\<close> of \<^verbatim>\<open>approvePairing\<close>, in source order.\<close>

datatype error = RequestNotFound | MissingDeviceId | InvalidDeviceId | InvalidRole

text \<open>
  The specification's error taxonomy: \<^verbatim>\<open>NotFound\<close> is the first throw,
  \<^verbatim>\<open>InvalidRequest\<close> the other three.
\<close>

fun isInvalidRequest :: "error \<Rightarrow> bool" where
  "isInvalidRequest RequestNotFound = False"
| "isInvalidRequest MissingDeviceId = True"
| "isInvalidRequest InvalidDeviceId = True"
| "isInvalidRequest InvalidRole = True"

section \<open>Pure helpers\<close>

text \<open>\<^verbatim>\<open>set.add(t)\<close> on a \<^verbatim>\<open>Set<string>\<close>, which iterates in insertion order.\<close>

definition setAdd :: "string list \<Rightarrow> string \<Rightarrow> string list" where
  "setAdd acc t = (if t \<in> set acc then acc else acc @ [t])"

fun collectStrings :: "string list \<Rightarrow> jsval list \<Rightarrow> string list" where
  "collectStrings acc [] = acc"
| "collectStrings acc (JStr s # vs) =
     (let t = trim s in if t \<noteq> [] then collectStrings (setAdd acc t) vs else collectStrings acc vs)"
| "collectStrings acc (v # vs) = collectStrings acc vs"

definition uniqSortedStrings :: "jsval list \<Rightarrow> string list" where
  "uniqSortedStrings items = sort (collectStrings [] items)"

definition mergeRoles :: "PairedDevice option \<Rightarrow> PendingRequest \<Rightarrow> string list option" where
  "mergeRoles existing pending =
     (let m1 = (case existing of
                  Some e \<Rightarrow> (case pd_roles e of Some rs \<Rightarrow> rs | None \<Rightarrow> [])
                | None \<Rightarrow> []);
          m2 = (case existing of
                  Some e \<Rightarrow> (case pd_role e of Some r \<Rightarrow> if r \<noteq> [] then [JStr r] else [] | None \<Rightarrow> [])
                | None \<Rightarrow> []);
          m3 = (case rq_roles pending of Some rs \<Rightarrow> rs | None \<Rightarrow> []);
          m4 = (case rq_role pending of Some r \<Rightarrow> if r \<noteq> [] then [JStr r] else [] | None \<Rightarrow> []);
          out = uniqSortedStrings (m1 @ m2 @ m3 @ m4)
      in if out \<noteq> [] then Some out else None)"

definition mergeScopes :: "PairedDevice option \<Rightarrow> PendingRequest \<Rightarrow> string list" where
  "mergeScopes existing pending =
     (let m1 = (case existing of
                  Some e \<Rightarrow> (case pd_scopes e of Some ss \<Rightarrow> ss | None \<Rightarrow> [])
                | None \<Rightarrow> []);
          m2 = (case rq_scopes pending of Some ss \<Rightarrow> ss | None \<Rightarrow> [])
      in uniqSortedStrings (m1 @ m2))"

section \<open>Core approval logic\<close>

text \<open>
  \<^verbatim>\<open>approvePairing(pendingById, pairedByDeviceId, requestId)\<close>. The two effects it
  reads, \<^verbatim>\<open>Date.now()\<close> and \<^verbatim>\<open>newToken()\<close> (32 random bytes, base64url), are
  the parameters \<open>now\<close> and \<open>fresh\<close>. A thrown error is \<open>Inl\<close>. The two object
  literals of its body come first: the token stored under \<^verbatim>\<open>[roleForToken]\<close>, and
  the \<^verbatim>\<open>device\<close> record with the \<^verbatim>\<open>tokens\<close> it carries.

  Where a read such as \<^verbatim>\<open>existingTokens[roleForToken]\<close> reaches an inherited
  property, the value is truthy and has no \<^verbatim>\<open>createdAtMs\<close> or
  \<^verbatim>\<open>lastUsedAtMs\<close>; an inherited \<^verbatim>\<open>pendingById[requestId]\<close> has no
  \<^verbatim>\<open>deviceId\<close>, and an inherited \<^verbatim>\<open>pairedByDeviceId[deviceId]\<close> has none of the
  fields of a device, so it counts for as much as no device.
\<close>

definition rotatedToken ::
  "int \<Rightarrow> string \<Rightarrow> PendingRequest \<Rightarrow> (string \<times> DeviceToken) list \<Rightarrow> string \<Rightarrow> DeviceToken" where
  "rotatedToken now fresh pending existingTokens roleForToken =
     \<lparr> tk_token = fresh,
       tk_role = roleForToken,
       tk_scopes = uniqSortedStrings (case rq_scopes pending of Some ss \<Rightarrow> ss | None \<Rightarrow> []),
       tk_createdAtMs = (case jsGet existingTokens roleForToken of
                           Own t \<Rightarrow> tk_createdAtMs t | Inherited \<Rightarrow> now | Absent \<Rightarrow> now),
       tk_rotatedAtMs = (case jsGet existingTokens roleForToken of
                           Own t \<Rightarrow> Some now | Inherited \<Rightarrow> Some now | Absent \<Rightarrow> None),
       tk_revokedAtMs = None,
       tk_lastUsedAtMs = (case jsGet existingTokens roleForToken of
                            Own t \<Rightarrow> tk_lastUsedAtMs t | Inherited \<Rightarrow> None | Absent \<Rightarrow> None) \<rparr>"

definition buildDevice ::
  "int \<Rightarrow> string \<Rightarrow> PendingRequest \<Rightarrow> PairedDevice option \<Rightarrow> string \<Rightarrow> string \<Rightarrow> PairedDevice" where
  "buildDevice now fresh pending existing deviceId roleForToken =
     (let existingTokens = (case existing of
                              Some e \<Rightarrow> (case pd_tokens e of Some ts \<Rightarrow> ts | None \<Rightarrow> [])
                            | None \<Rightarrow> []);
          tokens = (if roleForToken \<noteq> []
                    then AList.update roleForToken
                           (rotatedToken now fresh pending existingTokens roleForToken) existingTokens
                    else existingTokens)
      in \<lparr> pd_deviceId = deviceId,
           pd_publicKey = rq_publicKey pending,
           pd_displayName = rq_displayName pending,
           pd_platform = rq_platform pending,
           pd_clientId = rq_clientId pending,
           pd_clientMode = rq_clientMode pending,
           pd_role = rq_role pending,
           pd_roles = map_option (map JStr) (mergeRoles existing pending),
           pd_scopes = Some (map JStr (mergeScopes existing pending)),
           pd_remoteIp = rq_remoteIp pending,
           pd_tokens = Some tokens,
           pd_createdAtMs = (case existing of Some e \<Rightarrow> pd_createdAtMs e | None \<Rightarrow> now),
           pd_approvedAtMs = now \<rparr>)"

definition approvePairing ::
  "int \<Rightarrow> string \<Rightarrow> (string \<times> PendingRequest) list \<Rightarrow> (string \<times> PairedDevice) list \<Rightarrow> string
     \<Rightarrow> error + ApprovalResult" where
  "approvePairing now fresh pendingById pairedByDeviceId requestId =
     (case jsGet pendingById requestId of
        Absent \<Rightarrow> Inl RequestNotFound
      | Inherited \<Rightarrow> Inl MissingDeviceId
      | Own pending \<Rightarrow>
          (let deviceId = trim (case rq_deviceId pending of Some d \<Rightarrow> d | None \<Rightarrow> [])
           in if deviceId = [] then Inl MissingDeviceId
              else if \<not> isValidId deviceId then Inl InvalidDeviceId
              else
                (let existing = (case jsGet pairedByDeviceId deviceId of
                                   Own e \<Rightarrow> Some e | Inherited \<Rightarrow> None | Absent \<Rightarrow> None);
                     roleForToken = (case rq_role pending of Some r \<Rightarrow> trim r | None \<Rightarrow> [])
                 in if roleForToken \<noteq> [] \<and> \<not> isValidId roleForToken then Inl InvalidRole
                    else Inr \<lparr> ar_deviceId = deviceId,
                               ar_updatedPendingById = AList.delete requestId pendingById,
                               ar_updatedPairedByDeviceId =
                                 AList.update deviceId
                                   (buildDevice now fresh pending existing deviceId roleForToken)
                                   pairedByDeviceId \<rparr>)))"

section \<open>The self-approval daemon (auto-approve-self-pairing.ts)\<close>

text \<open>
  The device id and the role of a request as the scripts read them:
  \<^verbatim>\<open>String(pending.deviceId ?? "").trim()\<close> and
  \<^verbatim>\<open>typeof pending.role === "string" ? pending.role.trim() : ""\<close>.
\<close>

definition trimmedDeviceId :: "PendingRequest \<Rightarrow> string" where
  "trimmedDeviceId pending = trim (case rq_deviceId pending of Some d \<Rightarrow> d | None \<Rightarrow> [])"

definition roleForTokenOf :: "PendingRequest \<Rightarrow> string" where
  "roleForTokenOf pending = (case rq_role pending of Some r \<Rightarrow> trim r | None \<Rightarrow> [])"

text \<open>
  What one turn of the \<^verbatim>\<open>while\<close> loop observes: the clock of the loop test, the two
  documents as \<^verbatim>\<open>readJsonFile\<close> returns them (\<^verbatim>\<open>{}\<close> for a file that is missing
  or does not parse), the clock and the random token an approval in this turn reads, and
  whether each \<^verbatim>\<open>writeJsonAtomic\<close> of this turn goes through or throws.
\<close>

record poll =
  clock :: int
  pairedRead :: "(string \<times> PairedDevice) list"
  pendingRead :: "(string \<times> PendingRequest) list"
  approveNow :: int
  freshToken :: string
  pendingWriteOk :: bool
  pairedWriteOk :: bool

text \<open>
  How \<^verbatim>\<open>main()\<close> ends. A failure is a rejection of its promise: an error thrown by
  \<^verbatim>\<open>approvePairing\<close>, or by one of the two writes; when the second write throws, the
  first has already replaced \<^verbatim>\<open>pending.json\<close>. \<open>StillWaiting\<close> is the loop
  after the last observed turn, the deadline not reached.
\<close>

datatype failure =
    ApprovalError error
  | PendingWriteError
  | PairedWriteError string "(string \<times> PendingRequest) list"

datatype outcome =
    NoStateDir
  | NoIdentity
  | AlreadyPaired
  | DeadlineElapsed
  | StillWaiting
  | Approved string "(string \<times> PendingRequest) list" "(string \<times> PairedDevice) list"
  | Rejected failure

definition PAIRING_TIMEOUT_MS :: int where
  "PAIRING_TIMEOUT_MS = 10 * 60 * 1000"

text \<open>
  \<^verbatim>\<open>Object.keys(pendingById).find((id) => String(pendingById[id]?.deviceId ?? "").trim() === selfDeviceId)\<close>
\<close>

definition findSelfRequest :: "(string \<times> PendingRequest) list \<Rightarrow> string \<Rightarrow> string option" where
  "findSelfRequest pendingById selfDeviceId =
     find (\<lambda>id. (case map_of pendingById id of Some q \<Rightarrow> trimmedDeviceId q | None \<Rightarrow> []) = selfDeviceId)
       (map fst pendingById)"

text \<open>The body of the loop of the version that calls the shared \<^verbatim>\<open>approvePairing\<close>.\<close>

fun pollLoop :: "string \<Rightarrow> int \<Rightarrow> poll list \<Rightarrow> outcome" where
  "pollLoop selfDeviceId endAt [] = StillWaiting"
| "pollLoop selfDeviceId endAt (p # ps) =
     (if \<not> clock p < endAt then DeadlineElapsed
      else if jsGet (pairedRead p) selfDeviceId \<noteq> Absent then AlreadyPaired
      else
        (case findSelfRequest (pendingRead p) selfDeviceId of
           None \<Rightarrow> pollLoop selfDeviceId endAt ps
         | Some requestId \<Rightarrow>
             if requestId = [] then pollLoop selfDeviceId endAt ps
             else
               (case map_of (pendingRead p) requestId of
                  None \<Rightarrow> pollLoop selfDeviceId endAt ps
                | Some pending \<Rightarrow>
                    if trimmedDeviceId pending \<noteq> selfDeviceId then pollLoop selfDeviceId endAt ps
                    else
                      (case approvePairing (approveNow p) (freshToken p)
                              (pendingRead p) (pairedRead p) requestId of
                         Inl e \<Rightarrow> Rejected (ApprovalError e)
                       | Inr res \<Rightarrow>
                           if \<not> pendingWriteOk p then Rejected PendingWriteError
                           else if \<not> pairedWriteOk p
                             then Rejected (PairedWriteError requestId (ar_updatedPendingById res))
                           else Approved requestId (ar_updatedPendingById res)
                                  (ar_updatedPairedByDeviceId res)))))"

text \<open>
  \<^verbatim>\<open>main()\<close>: the state directory from the environment, the identity's device id
  (\<open>None\<close> when the identity file gives no string), the clock at the start, and the
  turns of the loop.
\<close>

definition main :: "string option \<Rightarrow> string option \<Rightarrow> int \<Rightarrow> poll list \<Rightarrow> outcome" where
  "main envStateDir identityDeviceId start polls =
     (let stateDir = trim (case envStateDir of
                             Some s \<Rightarrow> if s \<noteq> [] then s else ''/home/node/.openclaw''
                           | None \<Rightarrow> ''/home/node/.openclaw'')
      in if stateDir = [] then NoStateDir
         else
           (let selfDeviceId = (case identityDeviceId of Some d \<Rightarrow> trim d | None \<Rightarrow> [])
            in if selfDeviceId = [] then NoIdentity
               else pollLoop selfDeviceId (start + PAIRING_TIMEOUT_MS) polls))"

text \<open>
  \<^verbatim>\<open>main().catch((err) => { console.error(...); process.exitCode = 1; })\<close>: the exit
  status of the process is 1 when the promise is rejected, and 0 when \<^verbatim>\<open>main()\<close> returns.
\<close>

fun exitStatus :: "outcome \<Rightarrow> nat" where
  "exitStatus (Rejected f) = 1"
| "exitStatus out = 0"

text \<open>
  The lines the script prints with \<^verbatim>\<open>console.error\<close>: the confirmation before
  \<^verbatim>\<open>main()\<close> returns from an approval, and the line of the \<^verbatim>\<open>catch\<close> handler.
\<close>

datatype log_line = LogAutoApproved string | LogAutoApproveFailed failure

fun logged :: "outcome \<Rightarrow> log_line list" where
  "logged (Approved requestId pendingById pairedByDeviceId) = [LogAutoApproved requestId]"
| "logged (Rejected f) = [LogAutoApproveFailed f]"
| "logged out = []"

subsection \<open>The standalone version of the daemon\<close>

text \<open>
  \<^verbatim>\<open>scripts/bootstrap/auto-approve-self-pairing.ts\<close> also exists with the approval
  written out in the loop: no validation of the identifiers, the token map filled by the
  assignment \<^verbatim>\<open>tokens[roleForToken] = {...}\<close> (which, for the key
  \<^verbatim>\<open>__proto__\<close>, sets the prototype and adds no property), and the two documents
  updated in place before they are written.
\<close>

definition inlineDevice :: "int \<Rightarrow> string \<Rightarrow> PendingRequest \<Rightarrow> PairedDevice option \<Rightarrow> string \<Rightarrow> PairedDevice" where
  "inlineDevice now fresh pending existing selfDeviceId =
     (let roleForToken = (case rq_role pending of Some r \<Rightarrow> trim r | None \<Rightarrow> []);
          tokens0 = (case existing of
                       Some e \<Rightarrow> (case pd_tokens e of Some ts \<Rightarrow> ts | None \<Rightarrow> [])
                     | None \<Rightarrow> []);
          tokens = (if roleForToken \<noteq> [] \<and> roleForToken \<noteq> ''__proto__''
                    then AList.update roleForToken
                           (rotatedToken now fresh pending tokens0 roleForToken) tokens0
                    else tokens0)
      in \<lparr> pd_deviceId = selfDeviceId,
           pd_publicKey = rq_publicKey pending,
           pd_displayName = rq_displayName pending,
           pd_platform = rq_platform pending,
           pd_clientId = rq_clientId pending,
           pd_clientMode = rq_clientMode pending,
           pd_role = rq_role pending,
           pd_roles = map_option (map JStr) (mergeRoles existing pending),
           pd_scopes = Some (map JStr (mergeScopes existing pending)),
           pd_remoteIp = rq_remoteIp pending,
           pd_tokens = Some tokens,
           pd_createdAtMs = (case existing of Some e \<Rightarrow> pd_createdAtMs e | None \<Rightarrow> now),
           pd_approvedAtMs = now \<rparr>)"

fun pollLoopStandalone :: "string \<Rightarrow> int \<Rightarrow> poll list \<Rightarrow> outcome" where
  "pollLoopStandalone selfDeviceId endAt [] = StillWaiting"
| "pollLoopStandalone selfDeviceId endAt (p # ps) =
     (if \<not> clock p < endAt then DeadlineElapsed
      else if jsGet (pairedRead p) selfDeviceId \<noteq> Absent then AlreadyPaired
      else
        (case findSelfRequest (pendingRead p) selfDeviceId of
           None \<Rightarrow> pollLoopStandalone selfDeviceId endAt ps
         | Some requestId \<Rightarrow>
             if requestId = [] then pollLoopStandalone selfDeviceId endAt ps
             else
               (case map_of (pendingRead p) requestId of
                  None \<Rightarrow> pollLoopStandalone selfDeviceId endAt ps
                | Some pending \<Rightarrow>
                    if trimmedDeviceId pending \<noteq> selfDeviceId
                    then pollLoopStandalone selfDeviceId endAt ps
                    else
                      (let existing = (case jsGet (pairedRead p) selfDeviceId of
                                         Own e \<Rightarrow> Some e | Inherited \<Rightarrow> None | Absent \<Rightarrow> None);
                           device = inlineDevice (approveNow p) (freshToken p) pending existing selfDeviceId;
                           pendingById = AList.delete requestId (pendingRead p);
                           pairedByDeviceId = AList.update selfDeviceId device (pairedRead p)
                       in if \<not> pendingWriteOk p then Rejected PendingWriteError
                          else if \<not> pairedWriteOk p
                            then Rejected (PairedWriteError requestId pendingById)
                          else Approved requestId pendingById pairedByDeviceId))))"

definition mainStandalone :: "string option \<Rightarrow> string option \<Rightarrow> int \<Rightarrow> poll list \<Rightarrow> outcome" where
  "mainStandalone envStateDir identityDeviceId start polls =
     (let stateDir = trim (case envStateDir of
                             Some s \<Rightarrow> if s \<noteq> [] then s else ''/home/node/.openclaw''
                           | None \<Rightarrow> ''/home/node/.openclaw'')
      in if stateDir = [] then NoStateDir
         else
           (let selfDeviceId = (case identityDeviceId of Some d \<Rightarrow> trim d | None \<Rightarrow> [])
            in if selfDeviceId = [] then NoIdentity
               else pollLoopStandalone selfDeviceId (start + 10 * 60 * 1000) polls))"

text \<open>
  \<^verbatim>\<open>main().catch((err) => { console.error(...); process.exitCode = 0; })\<close> in this
  version; the lines it prints are the same.
\<close>

fun exitStatusStandalone :: "outcome \<Rightarrow> nat" where
  "exitStatusStandalone (Rejected f) = 0"
| "exitStatusStandalone out = 0"

section \<open>The manual approval tool (approve-device-pairing-local.ts)\<close>

text \<open>The two documents on disk, as \<^verbatim>\<open>readJsonFile\<close> returns them.\<close>

record store =
  pendingFile :: "(string \<times> PendingRequest) list"
  pairedFile :: "(string \<times> PairedDevice) list"

text \<open>
  \<^verbatim>\<open>Object.keys(pendingById).sort((a, b) => Number(pendingById[b]?.ts ?? 0) - Number(pendingById[a]?.ts ?? 0))\<close>:
  a stable sort, most recent first.
\<close>

definition byMostRecent :: "(string \<times> PendingRequest) list \<Rightarrow> string list" where
  "byMostRecent pendingById =
     sort_key (\<lambda>k. - (case map_of pendingById k of Some q \<Rightarrow> rq_ts q | None \<Rightarrow> 0))
       (map fst pendingById)"

text \<open>
  The repository holds two copies of the script. This is the one that imports the shared
  module and calls \<^verbatim>\<open>approvePairing\<close>, top to bottom: its optional argument, the
  clock and the random token the approval reads, whether each write goes through, and
  the store. It returns the exit status and the store it leaves. A
  \<^verbatim>\<open>process.exit(1)\<close>, an error thrown by \<^verbatim>\<open>approvePairing\<close> and an error
  thrown by a write all end the process with status 1.
\<close>

definition approveDevicePairingLocal ::
  "string option \<Rightarrow> int \<Rightarrow> string \<Rightarrow> bool \<Rightarrow> bool \<Rightarrow> store \<Rightarrow> nat \<times> store" where
  "approveDevicePairingLocal arg now fresh pendingOk pairedOk st =
     (let requestIdArg = (case arg of Some a \<Rightarrow> trim a | None \<Rightarrow> []);
          requestId = (if requestIdArg \<noteq> [] then requestIdArg
                       else (case byMostRecent (pendingFile st) of k # ks \<Rightarrow> k | [] \<Rightarrow> []))
      in if requestId = [] then (1, st)
         else if jsGet (pendingFile st) requestId = Absent then (1, st)
         else
           (case approvePairing now fresh (pendingFile st) (pairedFile st) requestId of
              Inl e \<Rightarrow> (1, st)
            | Inr res \<Rightarrow>
                if \<not> pendingOk then (1, st)
                else if \<not> pairedOk
                  then (1, st\<lparr> pendingFile := ar_updatedPendingById res \<rparr>)
                else (0, \<lparr> pendingFile = ar_updatedPendingById res,
                           pairedFile = ar_updatedPairedByDeviceId res \<rparr>)))"

subsection \<open>The standalone copy of the manual tool\<close>

text \<open>
  \<^verbatim>\<open>scripts/approve-device-pairing-local.ts\<close> also exists with the approval written
  out in the script. It stops with status 1 when no request id is found, when the request
  is missing and when the trimmed device id is empty; it never calls \<^verbatim>\<open>isValidId\<close>.
  It builds the record as the standalone daemon does, then updates the two documents in
  place (\<^verbatim>\<open>delete pendingById[requestId]\<close>, \<^verbatim>\<open>pairedByDeviceId[deviceId] = device\<close>,
  an assignment that adds no property for the key \<^verbatim>\<open>__proto__\<close>) and writes them.
\<close>

definition approveDevicePairingLocalStandalone ::
  "string option \<Rightarrow> int \<Rightarrow> string \<Rightarrow> bool \<Rightarrow> bool \<Rightarrow> store \<Rightarrow> nat \<times> store" where
  "approveDevicePairingLocalStandalone arg now fresh pendingOk pairedOk st =
     (let requestIdArg = (case arg of Some a \<Rightarrow> trim a | None \<Rightarrow> []);
          requestId = (if requestIdArg \<noteq> [] then requestIdArg
                       else (case byMostRecent (pendingFile st) of k # ks \<Rightarrow> k | [] \<Rightarrow> []))
      in if requestId = [] then (1, st)
         else
           (case jsGet (pendingFile st) requestId of
              Absent \<Rightarrow> (1, st)
            | Inherited \<Rightarrow> (1, st)
            | Own pending \<Rightarrow>
                (let deviceId = trim (case rq_deviceId pending of Some d \<Rightarrow> d | None \<Rightarrow> [])
                 in if deviceId = [] then (1, st)
                    else
                      (let existing = (case jsGet (pairedFile st) deviceId of
                                         Own e \<Rightarrow> Some e | Inherited \<Rightarrow> None | Absent \<Rightarrow> None);
                           device = inlineDevice now fresh pending existing deviceId;
                           pendingById = AList.delete requestId (pendingFile st);
                           pairedByDeviceId = (if deviceId = ''__proto__'' then pairedFile st
                                               else AList.update deviceId device (pairedFile st))
                       in if \<not> pendingOk then (1, st)
                          else if \<not> pairedOk then (1, st\<lparr> pendingFile := pendingById \<rparr>)
                          else (0, \<lparr> pendingFile = pendingById,
                                     pairedFile = pairedByDeviceId \<rparr>)))))"

text \<open>
  What a run has made durable: the request it took out of \<^verbatim>\<open>pending.json\<close> with the
  document it wrote there, and the document it wrote to \<^verbatim>\<open>paired.json\<close> when that
  second write went through too.
\<close>

fun persisted ::
  "outcome \<Rightarrow> (string \<times> (string \<times> PendingRequest) list \<times> (string \<times> PairedDevice) list option) option" where
  "persisted (Approved requestId pendingById pairedByDeviceId) =
     Some (requestId, pendingById, Some pairedByDeviceId)"
| "persisted (Rejected (PairedWriteError requestId pendingById)) = Some (requestId, pendingById, None)"
| "persisted out = None"

section \<open>The credential-sync daemon (watch-codex-auth.ts)\<close>

text \<open>
  The source document \<^verbatim>\<open>auth.json\<close>, the profile built from it, and the store
  \<^verbatim>\<open>auth-profiles.json\<close>. The store is read with \<^verbatim>\<open>safeReadJson\<close> and its
  \<^verbatim>\<open>version\<close> is tested with \<^verbatim>\<open>typeof ... === "number"\<close>, so the field is any
  JSON scalar or missing; a number is \<open>JNum\<close> (the model has the integers).
\<close>

record CodexTokens =
  ct_access_token :: "string option"
  ct_refresh_token :: "string option"
  ct_account_id :: "string option"

record CodexAuth =
  cx_tokens :: "CodexTokens option"
  cx_last_refresh :: "string option"

record AuthProfile =
  ap_type :: string
  ap_provider :: string
  ap_access :: string
  ap_refresh :: string
  ap_expires :: int
  ap_accountId :: "string option"

record AuthStore =
  as_version :: "jsval option"
  as_profiles :: "(string \<times> AuthProfile) list option"

definition PROFILE_ID :: string where
  "PROFILE_ID = ''openai-codex:default''"

text \<open>
  \<^verbatim>\<open>buildProfile(codex)\<close>. \<^verbatim>\<open>new Date(s).getTime()\<close> is the parameter
  \<open>parseDate\<close>, \<open>None\<close> where the runtime gives \<^verbatim>\<open>NaN\<close>; \<^verbatim>\<open>Date.now()\<close>
  is \<open>now\<close>.
\<close>

definition buildProfile :: "(string \<Rightarrow> int option) \<Rightarrow> int \<Rightarrow> CodexAuth \<Rightarrow> AuthProfile option" where
  "buildProfile parseDate now codex =
     (let access = (case cx_tokens codex of
                      Some t \<Rightarrow> (case ct_access_token t of Some a \<Rightarrow> trim a | None \<Rightarrow> [])
                    | None \<Rightarrow> []);
          refresh = (case cx_tokens codex of
                       Some t \<Rightarrow> (case ct_refresh_token t of Some r \<Rightarrow> trim r | None \<Rightarrow> [])
                     | None \<Rightarrow> [])
      in if access = [] \<or> refresh = [] then None
         else
           (let lastRefresh = (case cx_last_refresh codex of
                                 Some s \<Rightarrow> if s \<noteq> [] then parseDate s else None
                               | None \<Rightarrow> None);
                expires = (case lastRefresh of
                             Some t \<Rightarrow> t + 60 * 60 * 1000
                           | None \<Rightarrow> now + 60 * 60 * 1000);
                accountId = (case cx_tokens codex of Some t \<Rightarrow> ct_account_id t | None \<Rightarrow> None)
            in Some \<lparr> ap_type = ''oauth'', ap_provider = ''openai-codex'', ap_access = access,
                      ap_refresh = refresh, ap_expires = expires, ap_accountId = accountId \<rparr>))"

definition profilesEqual :: "AuthProfile option \<Rightarrow> AuthProfile \<Rightarrow> bool" where
  "profilesEqual a b =
     (case a of
        None \<Rightarrow> False
      | Some a' \<Rightarrow>
          ap_type a' = ap_type b \<and> ap_provider a' = ap_provider b \<and> ap_access a' = ap_access b
          \<and> ap_refresh a' = ap_refresh b \<and> ap_expires a' = ap_expires b
          \<and> ap_accountId a' = ap_accountId b)"

text \<open>
  What \<^verbatim>\<open>syncOnce()\<close> does: it returns after a log line, or it calls
  \<^verbatim>\<open>writeJsonAtomic(authStorePath, updated)\<close> with the store \<open>Synced\<close> carries.
  The two files are its arguments, \<open>None\<close> where \<^verbatim>\<open>safeReadJson\<close> returns
  \<^verbatim>\<open>null\<close>.
\<close>

datatype sync_result = SourceUnreadable | TokensMissing | UpToDate | Synced AuthStore

definition syncOnce ::
  "(string \<Rightarrow> int option) \<Rightarrow> int \<Rightarrow> CodexAuth option \<Rightarrow> AuthStore option \<Rightarrow> sync_result" where
  "syncOnce parseDate now codexFile storeFile =
     (case codexFile of
        None \<Rightarrow> SourceUnreadable
      | Some codex \<Rightarrow>
          (case buildProfile parseDate now codex of
             None \<Rightarrow> TokensMissing
           | Some nextProfile \<Rightarrow>
               (let existingVersion = (case storeFile of
                                         Some existing \<Rightarrow>
                                           (case as_version existing of
                                              Some (JNum n) \<Rightarrow> n
                                            | _ \<Rightarrow> 1)
                                       | None \<Rightarrow> 1);
                    existingProfiles = (case storeFile of
                                          Some existing \<Rightarrow>
                                            (case as_profiles existing of Some ps \<Rightarrow> ps | None \<Rightarrow> [])
                                        | None \<Rightarrow> []);
                    prev = (case jsGet existingProfiles PROFILE_ID of
                              Own a \<Rightarrow> Some a | Inherited \<Rightarrow> None | Absent \<Rightarrow> None)
                in if profilesEqual prev nextProfile then UpToDate
                   else Synced \<lparr> as_version = Some (JNum existingVersion),
                                  as_profiles = Some (AList.update PROFILE_ID nextProfile existingProfiles) \<rparr>)))"

text \<open>
  The store file after one cycle: replaced when \<^verbatim>\<open>syncOnce\<close> writes and the write
  goes through, untouched otherwise (a write that throws has renamed nothing).
\<close>

definition syncCycle ::
  "(string \<Rightarrow> int option) \<Rightarrow> int \<Rightarrow> bool \<Rightarrow> CodexAuth option \<Rightarrow> AuthStore option \<Rightarrow> AuthStore option" where
  "syncCycle parseDate now writeOk codexFile storeFile =
     (case syncOnce parseDate now codexFile storeFile of
        Synced updated \<Rightarrow> if writeOk then Some updated else storeFile
      | _ \<Rightarrow> storeFile)"

section \<open>Vocabulary of the statements\<close>

text \<open>An optional list read as a list, and an optional singular role read as a list.\<close>

definition orEmpty :: "'a list option \<Rightarrow> 'a list" where
  "orEmpty xs = (case xs of Some l \<Rightarrow> l | None \<Rightarrow> [])"

definition oneRole :: "string option \<Rightarrow> jsval list" where
  "oneRole r = (case r of Some s \<Rightarrow> [JStr s] | None \<Rightarrow> [])"

text \<open>The entries that count: the string entries, trimmed, the blank ones left out.\<close>

fun strEntries :: "jsval list \<Rightarrow> string list" where
  "strEntries [] = []"
| "strEntries (JStr s # vs) = (if trim s \<noteq> [] then trim s # strEntries vs else strEntries vs)"
| "strEntries (v # vs) = strEntries vs"

text \<open>
  The merged role list as the specification words it: the sorted set of the entries of the
  four sources, taken as they stand, and no list when that set is empty.
\<close>

fun rawStrings :: "jsval list \<Rightarrow> string list" where
  "rawStrings [] = []"
| "rawStrings (JStr s # vs) = s # rawStrings vs"
| "rawStrings (v # vs) = rawStrings vs"

definition mergedRolesAsWorded :: "PairedDevice option \<Rightarrow> PendingRequest \<Rightarrow> string list option" where
  "mergedRolesAsWorded existing pending =
     (let U = set (rawStrings (orEmpty (Option.bind existing pd_roles)))
            \<union> set (rawStrings (oneRole (Option.bind existing pd_role)))
            \<union> set (rawStrings (orEmpty (rq_roles pending)))
            \<union> set (rawStrings (oneRole (rq_role pending)))
      in if U = {} then None else Some (sorted_list_of_set U))"

text \<open>
  The request id the manual tool settles on: its trimmed argument, or else the key of
  the most recent pending request (empty when there is neither).
\<close>

definition selectedRequestId :: "string option \<Rightarrow> (string \<times> PendingRequest) list \<Rightarrow> string" where
  "selectedRequestId arg pendingById =
     (if (case arg of Some a \<Rightarrow> trim a | None \<Rightarrow> []) \<noteq> []
      then (case arg of Some a \<Rightarrow> trim a | None \<Rightarrow> [])
      else (case byMostRecent pendingById of k # ks \<Rightarrow> k | [] \<Rightarrow> []))"


definition existingTokensOf :: "PairedDevice option \<Rightarrow> (string \<times> DeviceToken) list" where
  "existingTokensOf existing = orEmpty (Option.bind existing pd_tokens)"

section \<open>Example data\<close>

text \<open>The request of the specification's concrete scenario, and variations of it.\<close>

definition req_r1 :: PendingRequest where
  "req_r1 = \<lparr> rq_requestId = ''r1'', rq_deviceId = Some ''dev-A'', rq_publicKey = None,
      rq_displayName = None, rq_platform = None, rq_clientId = None, rq_clientMode = None,
      rq_role = Some ''operator'', rq_roles = None, rq_scopes = Some [JStr ''chat''],
      rq_remoteIp = None, rq_silent = None, rq_isRepair = None, rq_ts = 1000 \<rparr>"

definition dev_A :: PairedDevice where
  "dev_A = \<lparr> pd_deviceId = ''dev-A'', pd_publicKey = None, pd_displayName = None,
      pd_platform = None, pd_clientId = None, pd_clientMode = None, pd_role = Some ''viewer'',
      pd_roles = Some [JStr ''viewer''], pd_scopes = Some [JStr ''admin''], pd_remoteIp = None,
      pd_tokens = Some [(''viewer'',
         \<lparr> tk_token = ''old'', tk_role = ''viewer'', tk_scopes = [''admin''], tk_createdAtMs = 10,
           tk_rotatedAtMs = None, tk_revokedAtMs = None, tk_lastUsedAtMs = Some 20 \<rparr>)],
      pd_createdAtMs = 10, pd_approvedAtMs = 10 \<rparr>"

definition req_etc :: PendingRequest where
  "req_etc = req_r1 \<lparr> rq_deviceId := Some ''../etc'' \<rparr>"

definition req_padded :: PendingRequest where
  "req_padded = req_r1 \<lparr> rq_deviceId := Some '' dev-A'' \<rparr>"



definition req_norole :: PendingRequest where
  "req_norole = req_r1 \<lparr> rq_role := None \<rparr>"


definition req_abc :: PendingRequest where
  "req_abc = req_r1 \<lparr> rq_role := Some ''c'', rq_roles := Some [JStr ''c'', JStr ''b''] \<rparr>"

definition dev_ab :: PairedDevice where
  "dev_ab = dev_A \<lparr> pd_role := Some ''a'', pd_roles := Some [JStr ''b'', JStr ''a''] \<rparr>"

definition req_blanks :: PendingRequest where
  "req_blanks = req_r1 \<lparr> rq_role := None, rq_roles := Some [JStr ''b '', JStr ''b'', JStr '' ''] \<rparr>"

text \<open>A request of another device, and turns of the daemon's loop that observe it.\<close>

definition req_other :: PendingRequest where
  "req_other = req_r1 \<lparr> rq_requestId := ''r0'', rq_deviceId := Some ''dev-B'' \<rparr>"

definition req_badrole :: PendingRequest where
  "req_badrole = req_r1 \<lparr> rq_role := Some ''bad role'' \<rparr>"

definition poll_two :: poll where
  "poll_two = \<lparr> clock = 1000, pairedRead = [], pendingRead = [(''r0'', req_other), (''r1'', req_r1)],
      approveNow = 1500, freshToken = ''tok-1'', pendingWriteOk = True, pairedWriteOk = True \<rparr>"

definition poll_swapped :: poll where
  "poll_swapped = poll_two \<lparr> pendingRead := [(''r1'', req_r1), (''r0'', req_other)] \<rparr>"

definition poll_none :: poll where
  "poll_none = poll_two \<lparr> clock := 500, pendingRead := [(''r0'', req_other)] \<rparr>"

definition poll_badrole :: poll where
  "poll_badrole = poll_two \<lparr> pendingRead := [(''r1'', req_badrole)] \<rparr>"

definition poll_nowrite :: poll where
  "poll_nowrite = poll_two \<lparr> pairedWriteOk := False \<rparr>"

text \<open>
  For the credential sync: the profile stored under the fixed profile id, and a source
  document whose \<^verbatim>\<open>last_refresh\<close> the runtime parses to an instant.
\<close>

definition storedProfile :: "AuthStore option \<Rightarrow> AuthProfile option" where
  "storedProfile storeFile =
     (case storeFile of
        Some existing \<Rightarrow> (case as_profiles existing of Some ps \<Rightarrow> map_of ps PROFILE_ID | None \<Rightarrow> None)
      | None \<Rightarrow> None)"

definition hasValidLastRefresh :: "(string \<Rightarrow> int option) \<Rightarrow> CodexAuth \<Rightarrow> bool" where
  "hasValidLastRefresh parseDate codex =
     (case cx_last_refresh codex of Some s \<Rightarrow> s \<noteq> [] \<and> parseDate s \<noteq> None | None \<Rightarrow> False)"

definition codex_plain :: CodexAuth where
  "codex_plain = \<lparr> cx_tokens = Some \<lparr> ct_access_token = Some ''acc'', ct_refresh_token = Some ''ref'',
                                      ct_account_id = None \<rparr>,
                    cx_last_refresh = None \<rparr>"

definition codex_dated :: CodexAuth where
  "codex_dated = codex_plain \<lparr> cx_last_refresh := Some ''2026-01-01T00:00:00Z'' \<rparr>"

definition parse_example :: "string \<Rightarrow> int option" where
  "parse_example s = (if s = ''2026-01-01T00:00:00Z'' then Some 1767225600000 else None)"

definition parse_nothing :: "string \<Rightarrow> int option" where
  "parse_nothing s = None"

definition profile_example :: "int \<Rightarrow> AuthProfile" where
  "profile_example e = \<lparr> ap_type = ''oauth'', ap_provider = ''openai-codex'', ap_access = ''acc'',
                         ap_refresh = ''ref'', ap_expires = e, ap_accountId = None \<rparr>"

definition store_v7 :: AuthStore where
  "store_v7 = \<lparr> as_version = Some (JNum 7), as_profiles = Some [] \<rparr>"

definition store_vtext :: AuthStore where
  "store_vtext = \<lparr> as_version = Some (JStr ''7''), as_profiles = Some [] \<rparr>"

section \<open>Facts about the helpers\<close>

lemma trim_Nil: "trim [] = []"
  by (simp add: trim_def)

lemma safe_not_white: "safeIdChar c \<Longrightarrow> \<not> isWhite c"
  by (auto simp: safeIdChar_def isWhite_def Let_def)

lemma dropWhile_unchanged: "xs = [] \<or> \<not> P (hd xs) \<Longrightarrow> dropWhile P xs = xs"
  by (cases xs) auto

text \<open>A well-formed identifier has no white space, so trimming leaves it as it is.\<close>

lemma trim_valid: "isValidId v \<Longrightarrow> trim v = v"
proof -
  assume v: "isValidId v"
  then have ne: "v \<noteq> []" and all: "\<forall>c\<in>set v. \<not> isWhite c"
    by (auto simp: isValidId_def list_all_iff safe_not_white)
  from ne all have "\<not> isWhite (hd v)" by simp
  then have lead: "dropWhile isWhite v = v" by (simp add: dropWhile_unchanged)
  from ne all have "\<not> isWhite (hd (rev v))" by (simp add: hd_rev)
  then have tail: "dropWhile isWhite (rev v) = rev v" by (simp add: dropWhile_unchanged)
  show ?thesis by (simp add: trim_def lead tail)
qed

lemma strEntries_append: "strEntries (xs @ ys) = strEntries xs @ strEntries ys"
  by (induction xs rule: strEntries.induct) simp_all

lemma set_setAdd: "set (setAdd acc t) = insert t (set acc)"
  by (auto simp: setAdd_def)

lemma distinct_setAdd: "distinct acc \<Longrightarrow> distinct (setAdd acc t)"
  by (simp add: setAdd_def)

lemma set_collectStrings: "set (collectStrings acc vs) = set acc \<union> set (strEntries vs)"
  by (induction acc vs rule: collectStrings.induct) (auto simp: Let_def set_setAdd)

lemma distinct_collectStrings: "distinct acc \<Longrightarrow> distinct (collectStrings acc vs)"
  by (induction acc vs rule: collectStrings.induct) (auto simp: Let_def distinct_setAdd)

text \<open>
  The loop over a \<^verbatim>\<open>Set\<close> followed by \<^verbatim>\<open>sort()\<close> yields the sorted list
  without repetitions of the entries that count.
\<close>

lemma uniqSortedStrings_eq: "uniqSortedStrings vs = sorted_list_of_set (set (strEntries vs))"
proof -
  have d: "distinct (collectStrings [] vs)"
    by (rule distinct_collectStrings) simp
  have "sorted_list_of_set (set (collectStrings [] vs)) = sort (remdups (collectStrings [] vs))"
    by (rule sorted_list_of_set_sort_remdups)
  also have "\<dots> = sort (collectStrings [] vs)"
    using d by (simp add: distinct_remdups_id)
  finally show ?thesis
    by (simp add: uniqSortedStrings_def set_collectStrings)
qed

lemma strEntries_oneRole:
  "strEntries (case r of Some s \<Rightarrow> if s \<noteq> [] then [JStr s] else [] | None \<Rightarrow> []) = strEntries (oneRole r)"
  by (cases r) (simp_all add: oneRole_def trim_Nil)

lemma mergeRoles_eq:
  "mergeRoles existing pending =
     (let U = set (strEntries (orEmpty (Option.bind existing pd_roles)))
            \<union> set (strEntries (oneRole (Option.bind existing pd_role)))
            \<union> set (strEntries (orEmpty (rq_roles pending)))
            \<union> set (strEntries (oneRole (rq_role pending)))
      in if U = {} then None else Some (sorted_list_of_set U))"
proof -
  let ?m1 = "orEmpty (Option.bind existing pd_roles)"
  let ?m2 = "case Option.bind existing pd_role of
               Some s \<Rightarrow> if s \<noteq> [] then [JStr s] else [] | None \<Rightarrow> []"
  let ?m3 = "orEmpty (rq_roles pending)"
  let ?m4 = "case rq_role pending of Some s \<Rightarrow> if s \<noteq> [] then [JStr s] else [] | None \<Rightarrow> []"
  let ?out = "uniqSortedStrings (?m1 @ ?m2 @ ?m3 @ ?m4)"
  let ?U = "set (strEntries ?m1) \<union> set (strEntries (oneRole (Option.bind existing pd_role)))
        \<union> set (strEntries ?m3) \<union> set (strEntries (oneRole (rq_role pending)))"
  have code: "mergeRoles existing pending = (if ?out \<noteq> [] then Some ?out else None)"
    by (cases existing) (simp_all add: mergeRoles_def Let_def orEmpty_def)
  have out: "?out = sorted_list_of_set ?U"
    by (simp only: uniqSortedStrings_eq strEntries_append strEntries_oneRole set_append Un_assoc)
  have fin: "finite ?U"
    by simp
  show ?thesis
    unfolding code out Let_def
    using sorted_list_of_set_eq_Nil_iff [OF fin] by simp
qed

lemma mergeScopes_eq:
  "mergeScopes existing pending =
     sorted_list_of_set (set (strEntries (orEmpty (Option.bind existing pd_scopes)))
                         \<union> set (strEntries (orEmpty (rq_scopes pending))))"
  by (cases existing)
     (simp_all add: mergeScopes_def Let_def uniqSortedStrings_eq strEntries_append orEmpty_def
        split: option.splits)

section \<open>Facts about the approval\<close>

lemma jsGet_existing:
  "(case jsGet obj k of Own e \<Rightarrow> Some e | Inherited \<Rightarrow> None | Absent \<Rightarrow> None) = map_of obj k"
  by (simp add: jsGet_def split: option.splits)

text \<open>The approval of a request that the pending collection owns, branch by branch.\<close>

lemma approvePairing_Own:
  assumes "map_of pendingById requestId = Some pending"
  shows "approvePairing now fresh pendingById pairedByDeviceId requestId =
     (if trimmedDeviceId pending = [] then Inl MissingDeviceId
      else if \<not> isValidId (trimmedDeviceId pending) then Inl InvalidDeviceId
      else if roleForTokenOf pending \<noteq> [] \<and> \<not> isValidId (roleForTokenOf pending) then Inl InvalidRole
      else Inr \<lparr> ar_deviceId = trimmedDeviceId pending,
                 ar_updatedPendingById = AList.delete requestId pendingById,
                 ar_updatedPairedByDeviceId =
                   AList.update (trimmedDeviceId pending)
                     (buildDevice now fresh pending (map_of pairedByDeviceId (trimmedDeviceId pending))
                        (trimmedDeviceId pending) (roleForTokenOf pending))
                     pairedByDeviceId \<rparr>)"
  using assms
  by (simp add: approvePairing_def jsGet_def Let_def trimmedDeviceId_def roleForTokenOf_def
        split: option.splits)

lemma approvePairing_not_Own:
  assumes "map_of pendingById requestId = None"
  shows "approvePairing now fresh pendingById pairedByDeviceId requestId =
     (if requestId \<in> set objectPrototypeNames then Inl MissingDeviceId else Inl RequestNotFound)"
  using assms by (simp add: approvePairing_def jsGet_def)

lemma approvePairing_InrD:
  assumes "approvePairing now fresh pendingById pairedByDeviceId requestId = Inr res"
  obtains pending where "map_of pendingById requestId = Some pending"
    and "trimmedDeviceId pending \<noteq> []" and "isValidId (trimmedDeviceId pending)"
    and "roleForTokenOf pending = [] \<or> isValidId (roleForTokenOf pending)"
    and "res = \<lparr> ar_deviceId = trimmedDeviceId pending,
                 ar_updatedPendingById = AList.delete requestId pendingById,
                 ar_updatedPairedByDeviceId =
                   AList.update (trimmedDeviceId pending)
                     (buildDevice now fresh pending (map_of pairedByDeviceId (trimmedDeviceId pending))
                        (trimmedDeviceId pending) (roleForTokenOf pending))
                     pairedByDeviceId \<rparr>"
proof (cases "map_of pendingById requestId")
  case None
  with assms show ?thesis
    by (simp add: approvePairing_not_Own split: if_splits)
next
  case (Some pending)
  with assms that [of pending] show ?thesis
    by (simp add: approvePairing_Own split: if_splits)
qed

lemma buildDevice_tokens:
  "pd_tokens (buildDevice now fresh pending existing dev ro) =
     Some (if ro \<noteq> []
           then AList.update ro (rotatedToken now fresh pending (existingTokensOf existing) ro)
                  (existingTokensOf existing)
           else existingTokensOf existing)"
  by (cases existing)
     (simp_all add: buildDevice_def Let_def existingTokensOf_def orEmpty_def split: option.splits)

lemma buildDevice_fields:
  "pd_deviceId (buildDevice now fresh pending existing dev ro) = dev"
  "pd_approvedAtMs (buildDevice now fresh pending existing dev ro) = now"
  "pd_createdAtMs (buildDevice now fresh pending existing dev ro) =
     (case existing of Some e \<Rightarrow> pd_createdAtMs e | None \<Rightarrow> now)"
  "pd_scopes (buildDevice now fresh pending existing dev ro) =
     Some (map JStr (mergeScopes existing pending))"
  "pd_roles (buildDevice now fresh pending existing dev ro) =
     map_option (map JStr) (mergeRoles existing pending)"
  by (simp_all add: buildDevice_def Let_def)

lemma rotatedToken_fields:
  "tk_token (rotatedToken now fresh pending toks ro) = fresh"
  "tk_role (rotatedToken now fresh pending toks ro) = ro"
  "tk_revokedAtMs (rotatedToken now fresh pending toks ro) = None"
  "tk_scopes (rotatedToken now fresh pending toks ro) = uniqSortedStrings (orEmpty (rq_scopes pending))"
  by (simp_all add: rotatedToken_def orEmpty_def)





text \<open>How the example data evaluates.\<close>

lemma example_ids:
  "isValidId ''dev-A''" "isValidId ''operator''" "isValidId ''viewer''"
  "trimmedDeviceId req_r1 = ''dev-A''" "roleForTokenOf req_r1 = ''operator''"
  by (simp_all add: isValidId_def safeIdChar_def trimmedDeviceId_def roleForTokenOf_def req_r1_def
        trim_def isWhite_def)

section \<open>Facts about the daemon\<close>

lemma findSelfRequest_Some:
  assumes "findSelfRequest pendingById selfDeviceId = Some requestId"
  shows "(case map_of pendingById requestId of Some q \<Rightarrow> trimmedDeviceId q | None \<Rightarrow> []) = selfDeviceId"
  using assms by (auto simp: findSelfRequest_def find_Some_iff)

text \<open>
  One turn of the loop: it passes to the next turn, or it ends the run; when it makes
  something durable, the request it consumed carries the daemon's own device id.
\<close>

lemma pollLoop_persisted:
  assumes "persisted (pollLoop selfDeviceId endAt polls) = Some (requestId, pend, pairedOpt)"
  shows "\<exists>p\<in>set polls. \<exists>q res.
           map_of (pendingRead p) requestId = Some q
         \<and> trimmedDeviceId q = selfDeviceId
         \<and> approvePairing (approveNow p) (freshToken p) (pendingRead p) (pairedRead p) requestId = Inr res
         \<and> pend = ar_updatedPendingById res
         \<and> (pairedOpt = None \<or> pairedOpt = Some (ar_updatedPairedByDeviceId res))"
  using assms
proof (induction polls)
  case Nil
  then show ?case by simp
next
  case (Cons p ps)
  show ?case
  proof (cases "persisted (pollLoop selfDeviceId endAt ps) = Some (requestId, pend, pairedOpt)")
    case True
    with Cons.IH show ?thesis by auto
  next
    case False
    with Cons.prems have here:
      "\<exists>q res. map_of (pendingRead p) requestId = Some q
         \<and> trimmedDeviceId q = selfDeviceId
         \<and> approvePairing (approveNow p) (freshToken p) (pendingRead p) (pairedRead p) requestId = Inr res
         \<and> pend = ar_updatedPendingById res
         \<and> (pairedOpt = None \<or> pairedOpt = Some (ar_updatedPairedByDeviceId res))"
      by (auto split: if_splits option.splits sum.splits)
    then show ?thesis by auto
  qed
qed

lemma main_persisted:
  assumes "persisted (main envStateDir identityDeviceId start polls) = Some (requestId, pend, pairedOpt)"
  shows "\<exists>ident. identityDeviceId = Some ident \<and> trim ident \<noteq> []
       \<and> persisted (pollLoop (trim ident) (start + PAIRING_TIMEOUT_MS) polls)
           = Some (requestId, pend, pairedOpt)"
  using assms
  by (cases identityDeviceId) (auto simp: main_def Let_def split: if_splits)

text \<open>A rejected run has a turn in which the approval threw, or one of the writes did.\<close>

lemma pollLoop_Rejected:
  assumes "pollLoop selfDeviceId endAt polls = Rejected f"
  shows "\<exists>p\<in>set polls.
           (\<exists>e requestId. f = ApprovalError e
              \<and> approvePairing (approveNow p) (freshToken p) (pendingRead p) (pairedRead p) requestId
                  = Inl e)
         \<or> (f = PendingWriteError \<and> \<not> pendingWriteOk p)
         \<or> (\<exists>requestId pend. f = PairedWriteError requestId pend \<and> \<not> pairedWriteOk p)"
  using assms
proof (induction polls)
  case Nil
  then show ?case by simp
next
  case (Cons p ps)
  show ?case
  proof (cases "pollLoop selfDeviceId endAt ps = Rejected f")
    case True
    with Cons.IH show ?thesis by auto
  next
    case False
    with Cons.prems have
      "(\<exists>e requestId. f = ApprovalError e
              \<and> approvePairing (approveNow p) (freshToken p) (pendingRead p) (pairedRead p) requestId
                  = Inl e)
         \<or> (f = PendingWriteError \<and> \<not> pendingWriteOk p)
         \<or> (\<exists>requestId pend. f = PairedWriteError requestId pend \<and> \<not> pairedWriteOk p)"
      by (auto split: if_splits option.splits sum.splits)
    then show ?thesis by auto
  qed
qed

lemma main_Rejected:
  assumes "main envStateDir identityDeviceId start polls = Rejected f"
  shows "\<exists>selfDeviceId. pollLoop selfDeviceId (start + PAIRING_TIMEOUT_MS) polls = Rejected f"
  using assms by (auto simp: main_def Let_def split: if_splits)

lemma exitStatusStandalone_zero: "exitStatusStandalone out = 0"
  by (cases out) simp_all

text \<open>The manual tool ends with status 0 only after an approval and two writes.\<close>

lemma tool_status:
  "fst (approveDevicePairingLocal arg now fresh pendingOk pairedOk st) = 0 \<or>
   fst (approveDevicePairingLocal arg now fresh pendingOk pairedOk st) = 1"
  by (simp add: approveDevicePairingLocal_def Let_def split: sum.splits list.splits)

lemma tool_success:
  assumes "fst (approveDevicePairingLocal arg now fresh pendingOk pairedOk st) = 0"
  shows "pendingOk \<and> pairedOk
       \<and> (\<exists>requestId res.
             approvePairing now fresh (pendingFile st) (pairedFile st) requestId = Inr res
           \<and> snd (approveDevicePairingLocal arg now fresh pendingOk pairedOk st)
               = \<lparr> pendingFile = ar_updatedPendingById res,
                   pairedFile = ar_updatedPairedByDeviceId res \<rparr>)"
  using assms
  by (auto simp: approveDevicePairingLocal_def Let_def split: sum.splits list.splits if_splits)

text \<open>The tool that calls \<^verbatim>\<open>approvePairing\<close>, from the request id it settles on.\<close>

lemma tool_selected:
  "approveDevicePairingLocal arg now fresh pendingOk pairedOk st =
     (if selectedRequestId arg (pendingFile st) = [] then (1, st)
      else if jsGet (pendingFile st) (selectedRequestId arg (pendingFile st)) = Absent then (1, st)
      else
        (case approvePairing now fresh (pendingFile st) (pairedFile st)
                (selectedRequestId arg (pendingFile st)) of
           Inl e \<Rightarrow> (1, st)
         | Inr res \<Rightarrow>
             if \<not> pendingOk then (1, st)
             else if \<not> pairedOk then (1, st\<lparr> pendingFile := ar_updatedPendingById res \<rparr>)
             else (0, \<lparr> pendingFile = ar_updatedPendingById res,
                        pairedFile = ar_updatedPairedByDeviceId res \<rparr>)))"
  by (simp only: approveDevicePairingLocal_def selectedRequestId_def Let_def)

text \<open>
  The standalone copy of the manual tool has no check of the identifier: on the device id
  \<^verbatim>\<open>../etc\<close> it approves, writes both documents and ends with status 0.
\<close>

lemma standalone_tool_unvalidated:
  "approveDevicePairingLocalStandalone (Some ''r1'') 5000 ''tok-1'' True True
     \<lparr> pendingFile = [(''r1'', req_etc)], pairedFile = [] \<rparr>
   = (0, \<lparr> pendingFile = [],
           pairedFile = [(''../etc'', inlineDevice 5000 ''tok-1'' req_etc None ''../etc'')] \<rparr>)"
  by (simp add: approveDevicePairingLocalStandalone_def Let_def jsGet_def objectPrototypeNames_def
        req_etc_def req_r1_def trim_def isWhite_def)

section \<open>Facts about the credential sync\<close>

text \<open>The six comparisons of \<^verbatim>\<open>profilesEqual\<close> are all the fields of a profile.\<close>

lemma profilesEqual_iff: "profilesEqual prev b \<longleftrightarrow> prev = Some b"
  by (cases prev) (auto simp: profilesEqual_def)

text \<open>With a \<^verbatim>\<open>last_refresh\<close> that parses, the profile does not depend on the clock.\<close>

lemma buildProfile_stable:
  assumes "now2 = now1 \<or> hasValidLastRefresh parseDate codex"
  shows "buildProfile parseDate now2 codex = buildProfile parseDate now1 codex"
  using assms
  by (auto simp: buildProfile_def hasValidLastRefresh_def Let_def split: option.splits)

lemma syncOnce_Some:
  assumes "buildProfile parseDate now codex = Some nextProfile"
  shows "syncOnce parseDate now (Some codex) storeFile =
     (if storedProfile storeFile = Some nextProfile then UpToDate
      else Synced \<lparr> as_version = Some (JNum (case storeFile of
                                               Some existing \<Rightarrow>
                                                 (case as_version existing of
                                                    Some (JNum n) \<Rightarrow> n
                                                  | _ \<Rightarrow> 1)
                                             | None \<Rightarrow> 1)),
                    as_profiles = Some (AList.update PROFILE_ID nextProfile
                      (case storeFile of
                         Some existing \<Rightarrow> (case as_profiles existing of Some ps \<Rightarrow> ps | None \<Rightarrow> [])
                       | None \<Rightarrow> [])) \<rparr>)"
  using assms
  by (simp add: syncOnce_def Let_def jsGet_existing profilesEqual_iff storedProfile_def
        split: option.splits)

lemma syncOnce_None:
  assumes "buildProfile parseDate now codex = None"
  shows "syncOnce parseDate now (Some codex) storeFile = TokensMissing"
  using assms by (simp add: syncOnce_def)

lemma storedProfile_after:
  "storedProfile (Some \<lparr> as_version = v, as_profiles = Some (AList.update PROFILE_ID a ps) \<rparr>) = Some a"
  by (simp add: storedProfile_def update_conv')

text \<open>After a cycle whose write went through, the store holds the cycle's profile.\<close>

lemma syncCycle_stored:
  assumes "buildProfile parseDate now codex = Some nextProfile"
  shows "storedProfile (syncCycle parseDate now True (Some codex) storeFile) = Some nextProfile"
  by (simp add: syncCycle_def syncOnce_Some [OF assms] storedProfile_after)

section \<open>The claims about the approval engine\<close>

text \<open>
  Claim C1. Let the pending collection hold, under the request id, a request whose device
  id is a well-formed identifier (so it is not blank), whose role is a well-formed
  identifier, and whose device id the paired collection does not hold yet. Then
  \<^verbatim>\<open>approvePairing\<close> returns that device id; the paired collection it returns is the
  input one with the device id mapped to the new record, whose token map has exactly one
  entry, keyed by the role; and the pending collection it returns is the input one
  without the request id. All other pending entries and all paired devices are as before.
\<close>

theorem approvePairing_roundtrip:
  assumes "map_of pendingById requestId = Some pending"
    and "rq_deviceId pending = Some dev" and "isValidId dev"
    and "rq_role pending = Some ro" and "isValidId ro"
    and "map_of pairedByDeviceId dev = None"
  shows "\<exists>res device tk.
      approvePairing now fresh pendingById pairedByDeviceId requestId = Inr res
    \<and> ar_deviceId res = dev
    \<and> map_of (ar_updatedPairedByDeviceId res) = (map_of pairedByDeviceId)(dev \<mapsto> device)
    \<and> pd_deviceId device = dev
    \<and> pd_tokens device = Some [(ro, tk)] \<and> tk_role tk = ro \<and> tk_token tk = fresh
    \<and> map_of (ar_updatedPendingById res) = (map_of pendingById)(requestId := None)"
proof -
  have d: "trimmedDeviceId pending = dev"
    using assms(2,3) by (simp add: trimmedDeviceId_def trim_valid)
  have r: "roleForTokenOf pending = ro"
    using assms(4,5) by (simp add: roleForTokenOf_def trim_valid)
  have ne: "dev \<noteq> []" "ro \<noteq> []"
    using assms(3,5) by (auto simp: isValidId_def)
  let ?device = "buildDevice now fresh pending None dev ro"
  let ?tk = "rotatedToken now fresh pending [] ro"
  let ?res = "\<lparr> ar_deviceId = dev, ar_updatedPendingById = AList.delete requestId pendingById,
                ar_updatedPairedByDeviceId = AList.update dev ?device pairedByDeviceId \<rparr>"
  have run: "approvePairing now fresh pendingById pairedByDeviceId requestId = Inr ?res"
    using assms(3,5,6) ne by (simp add: approvePairing_Own [OF assms(1)] d r)
  have toks: "pd_tokens ?device = Some [(ro, ?tk)]"
    using ne by (simp add: buildDevice_tokens existingTokensOf_def orEmpty_def)
  show ?thesis
    unfolding run
    by (intro exI [of _ ?res] exI [of _ ?device] exI [of _ ?tk])
       (simp add: toks buildDevice_fields rotatedToken_fields update_conv' delete_conv')
qed

theorem approvePairing_roundtrip_witness:
  "map_of [(''r1'', req_r1)] ''r1'' = Some req_r1
   \<and> rq_deviceId req_r1 = Some ''dev-A'' \<and> isValidId ''dev-A''
   \<and> rq_role req_r1 = Some ''operator'' \<and> isValidId ''operator''
   \<and> map_of ([] :: (string \<times> PairedDevice) list) ''dev-A'' = None
   \<and> (\<exists>res device tk.
        approvePairing 5000 ''tok-1'' [(''r1'', req_r1)] [] ''r1'' = Inr res
      \<and> ar_deviceId res = ''dev-A''
      \<and> map_of (ar_updatedPairedByDeviceId res) = (map_of [])(''dev-A'' \<mapsto> device)
      \<and> pd_deviceId device = ''dev-A''
      \<and> pd_tokens device = Some [(''operator'', tk)] \<and> tk_role tk = ''operator''
      \<and> tk_token tk = ''tok-1''
      \<and> map_of (ar_updatedPendingById res) = (map_of [(''r1'', req_r1)])(''r1'' := None))"
proof -
  have h: "map_of [(''r1'', req_r1)] ''r1'' = Some req_r1"
    "rq_deviceId req_r1 = Some ''dev-A''" "rq_role req_r1 = Some ''operator''"
    "map_of ([] :: (string \<times> PairedDevice) list) ''dev-A'' = None"
    by (simp_all add: req_r1_def)
  show ?thesis
    using h example_ids(1,2)
      approvePairing_roundtrip [OF h(1) h(2) example_ids(1) h(3) example_ids(2) h(4),
        of 5000 "''tok-1''"]
    by simp
qed

text \<open>
  Claim C3, as amended. \<^verbatim>\<open>approvePairing\<close> trims the device id and the role before it
  checks them, and takes a role that is blank after trimming for no role. So, for every
  pending collection, paired collection and request id: when the request exists and its
  trimmed device id is empty, or its trimmed device id, or its trimmed role when that is
  not empty, has a character outside the safe set, the call fails with an error of the
  kind InvalidRequest (the missing-device-id error, the invalid-device-id error or the
  invalid-role error, in that order of checks). It returns no collection, and its
  arguments are values that it cannot change; the copy of the manual tool that calls
  \<^verbatim>\<open>approvePairing\<close>, whenever it settles on that request, exits with status 1 and
  leaves both documents as they were.
\<close>

theorem approvePairing_rejects_malformed:
  assumes "map_of pendingById requestId = Some pending"
    and "trimmedDeviceId pending = [] \<or> \<not> isValidId (trimmedDeviceId pending)
         \<or> (roleForTokenOf pending \<noteq> [] \<and> \<not> isValidId (roleForTokenOf pending))"
  shows "(\<exists>e. approvePairing now fresh pendingById pairedByDeviceId requestId = Inl e
              \<and> isInvalidRequest e
              \<and> e = (if trimmedDeviceId pending = [] then MissingDeviceId
                       else if \<not> isValidId (trimmedDeviceId pending) then InvalidDeviceId
                       else InvalidRole))
       \<and> (\<forall>arg pendingOk pairedOk.
             selectedRequestId arg pendingById = requestId \<longrightarrow>
             approveDevicePairingLocal arg now fresh pendingOk pairedOk
               \<lparr> pendingFile = pendingById, pairedFile = pairedByDeviceId \<rparr>
             = (1, \<lparr> pendingFile = pendingById, pairedFile = pairedByDeviceId \<rparr>))"
proof -
  let ?e = "if trimmedDeviceId pending = [] then MissingDeviceId
            else if \<not> isValidId (trimmedDeviceId pending) then InvalidDeviceId
            else InvalidRole"
  have run: "approvePairing now fresh pendingById pairedByDeviceId requestId = Inl ?e"
    using assms(2) by (auto simp: approvePairing_Own [OF assms(1)])
  have kind: "isInvalidRequest ?e"
    by simp
  have tool: "approveDevicePairingLocal arg now fresh pendingOk pairedOk
               \<lparr> pendingFile = pendingById, pairedFile = pairedByDeviceId \<rparr>
             = (1, \<lparr> pendingFile = pendingById, pairedFile = pairedByDeviceId \<rparr>)"
    if "selectedRequestId arg pendingById = requestId" for arg pendingOk pairedOk
    using that run by (simp add: tool_selected)
  from run kind tool show ?thesis
    by blast
qed

theorem approvePairing_rejects_malformed_witness:
  "map_of [(''r1'', req_etc)] ''r1'' = Some req_etc
   \<and> trimmedDeviceId req_etc \<noteq> [] \<and> \<not> isValidId (trimmedDeviceId req_etc)
   \<and> approvePairing 5000 ''tok-1'' [(''r1'', req_etc)] [] ''r1'' = Inl InvalidDeviceId
   \<and> isInvalidRequest InvalidDeviceId
   \<and> selectedRequestId (Some ''r1 '') [(''r1'', req_etc)] = ''r1''
   \<and> approveDevicePairingLocal (Some ''r1 '') 5000 ''tok-1'' True True
        \<lparr> pendingFile = [(''r1'', req_etc)], pairedFile = [] \<rparr>
      = (1, \<lparr> pendingFile = [(''r1'', req_etc)], pairedFile = [] \<rparr>)
   \<and> selectedRequestId None [(''r1'', req_etc)] = ''r1''
   \<and> approveDevicePairingLocal None 5000 ''tok-1'' True True
        \<lparr> pendingFile = [(''r1'', req_etc)], pairedFile = [] \<rparr>
      = (1, \<lparr> pendingFile = [(''r1'', req_etc)], pairedFile = [] \<rparr>)"
proof -
  have h1: "map_of [(''r1'', req_etc)] ''r1'' = Some req_etc"
    by simp
  have id: "trimmedDeviceId req_etc = ''../etc''"
    by (simp add: req_etc_def req_r1_def trimmedDeviceId_def trim_def isWhite_def)
  have bad: "\<not> isValidId ''../etc''"
    by (simp add: isValidId_def safeIdChar_def)
  have h2: "trimmedDeviceId req_etc = [] \<or> \<not> isValidId (trimmedDeviceId req_etc)
         \<or> (roleForTokenOf req_etc \<noteq> [] \<and> \<not> isValidId (roleForTokenOf req_etc))"
    by (simp add: id bad)
  have sel: "selectedRequestId (Some ''r1 '') [(''r1'', req_etc)] = ''r1''"
    "selectedRequestId None [(''r1'', req_etc)] = ''r1''"
    by (simp_all add: selectedRequestId_def byMostRecent_def trim_def isWhite_def)
  from approvePairing_rejects_malformed [OF h1 h2, of 5000 "''tok-1''" "[]"] sel
  have "approvePairing 5000 ''tok-1'' [(''r1'', req_etc)] [] ''r1'' = Inl InvalidDeviceId"
    and "approveDevicePairingLocal (Some ''r1 '') 5000 ''tok-1'' True True
        \<lparr> pendingFile = [(''r1'', req_etc)], pairedFile = [] \<rparr>
      = (1, \<lparr> pendingFile = [(''r1'', req_etc)], pairedFile = [] \<rparr>)"
    and "approveDevicePairingLocal None 5000 ''tok-1'' True True
        \<lparr> pendingFile = [(''r1'', req_etc)], pairedFile = [] \<rparr>
      = (1, \<lparr> pendingFile = [(''r1'', req_etc)], pairedFile = [] \<rparr>)"
    by (auto simp: id bad)
  with h1 id bad sel show ?thesis
    by simp
qed

text \<open>
  The claim as worded fails: a device id with a leading space has a character outside the
  safe set, and the request is approved under the trimmed id.
\<close>

theorem approvePairing_padded_id_counterexample:
  "rq_deviceId req_padded = Some '' dev-A'' \<and> \<not> list_all safeIdChar '' dev-A''
   \<and> map_sum id ar_deviceId (approvePairing 5000 ''tok-1'' [(''r1'', req_padded)] [] ''r1'')
      = Inr ''dev-A''"
proof -
  have own: "map_of [(''r1'', req_padded)] ''r1'' = Some req_padded"
    by simp
  have ids: "trimmedDeviceId req_padded = ''dev-A''" "roleForTokenOf req_padded = ''operator''"
    by (simp_all add: req_padded_def req_r1_def trimmedDeviceId_def roleForTokenOf_def trim_def
          isWhite_def)
  show ?thesis
    by (simp add: approvePairing_Own [OF own] ids example_ids)
       (simp add: req_padded_def req_r1_def safeIdChar_def)
qed

text \<open>
  Claim C4, as amended. The entries that count are the string entries, trimmed, the blank
  ones left out. The merged role list is the sorted list without repetitions of the set
  union of the entries that count of the existing device's role list, its singular role,
  the request's role list and its singular role, and there is no list when that union is
  empty. The merged scope list is the sorted list without repetitions of the union of the
  entries that count of the existing device's scopes and the request's scopes; it is
  always a list. Both depend on the set of entries only, not on their order.
\<close>

theorem merge_is_sorted_union:
  "mergeRoles existing pending =
     (let U = set (strEntries (orEmpty (Option.bind existing pd_roles)))
            \<union> set (strEntries (oneRole (Option.bind existing pd_role)))
            \<union> set (strEntries (orEmpty (rq_roles pending)))
            \<union> set (strEntries (oneRole (rq_role pending)))
      in if U = {} then None else Some (sorted_list_of_set U))
   \<and> mergeScopes existing pending =
       sorted_list_of_set (set (strEntries (orEmpty (Option.bind existing pd_scopes)))
                           \<union> set (strEntries (orEmpty (rq_scopes pending))))
   \<and> sorted (mergeScopes existing pending) \<and> distinct (mergeScopes existing pending)
   \<and> sorted (orEmpty (mergeRoles existing pending))
   \<and> distinct (orEmpty (mergeRoles existing pending))"
proof -
  have roles: "sorted (orEmpty (mergeRoles existing pending))
               \<and> distinct (orEmpty (mergeRoles existing pending))"
    by (simp add: mergeRoles_eq Let_def orEmpty_def)
  have scopes: "sorted (mergeScopes existing pending) \<and> distinct (mergeScopes existing pending)"
    by (simp add: mergeScopes_eq)
  show ?thesis
    using roles scopes mergeRoles_eq [of existing pending] mergeScopes_eq [of existing pending]
    by simp
qed

theorem merge_is_sorted_union_witness:
  "mergeRoles (Some dev_ab) req_abc = Some [''a'', ''b'', ''c'']
   \<and> mergeScopes (Some dev_ab) req_abc = [''admin'', ''chat'']
   \<and> mergeRoles None req_norole = None"
proof -
  have e: "trim ''a'' = ''a''" "trim ''b'' = ''b''" "trim ''c'' = ''c''"
    "trim ''admin'' = ''admin''" "trim ''chat'' = ''chat''"
    by (simp_all add: trim_def isWhite_def)
  have s1: "sorted_list_of_set {''b'', ''a'', ''c''} = [''a'', ''b'', ''c'']"
    by (simp add: sorted_list_of_set.fold_insort_key.insert_remove insort_key.simps)
  have s2: "sorted_list_of_set {''admin'', ''chat''} = [''admin'', ''chat'']"
    by (simp add: sorted_list_of_set.fold_insort_key.insert_remove insort_key.simps)
  show ?thesis
    using merge_is_sorted_union [of "Some dev_ab" req_abc] merge_is_sorted_union [of None req_norole]
    by (simp add: dev_ab_def dev_A_def req_abc_def req_norole_def req_r1_def orEmpty_def
          oneRole_def e Let_def s1 s2 insert_commute)
qed

text \<open>
  The claim as worded fails: on the role list \<^verbatim>\<open>["b ", "b", " "]\<close> the code returns
  \<^verbatim>\<open>["b"]\<close>, and the sorted union of the entries as they stand has three members.
\<close>

theorem mergeRoles_raw_union_counterexample:
  "mergeRoles None req_blanks = Some [''b'']
   \<and> mergedRolesAsWorded None req_blanks = Some ['' '', ''b'', ''b '']"
proof -
  have code: "mergeRoles None req_blanks = Some [''b'']"
    by (simp add: mergeRoles_def req_blanks_def req_r1_def uniqSortedStrings_def trim_def
          isWhite_def setAdd_def)
  have worded: "mergedRolesAsWorded None req_blanks = Some ['' '', ''b'', ''b '']"
    by (simp add: mergedRolesAsWorded_def req_blanks_def req_r1_def orEmpty_def oneRole_def
          sorted_list_of_set.fold_insort_key.insert_remove insort_key.simps)
  from code worded show ?thesis by simp
qed




text \<open>
  Claim C8. When the request's role is missing, or blank after trimming, and the approval
  goes through (the trimmed device id is well formed), no token is rotated: the token map
  of the new record is the token map of the existing device, entry for entry, and it is
  empty when the device was not paired before or had no token map.
\<close>

theorem approvePairing_no_role_keeps_tokens:
  assumes "map_of pendingById requestId = Some pending"
    and "isValidId (trimmedDeviceId pending)"
    and "rq_role pending = None \<or> (\<exists>r. rq_role pending = Some r \<and> trim r = [])"
  shows "\<exists>res device.
      approvePairing now fresh pendingById pairedByDeviceId requestId = Inr res
    \<and> map_of (ar_updatedPairedByDeviceId res) (ar_deviceId res) = Some device
    \<and> pd_tokens device =
        Some (case map_of pairedByDeviceId (ar_deviceId res) of
                Some e \<Rightarrow> (case pd_tokens e of Some ts \<Rightarrow> ts | None \<Rightarrow> [])
              | None \<Rightarrow> [])
    \<and> (map_of pairedByDeviceId (ar_deviceId res) = None \<longrightarrow> pd_tokens device = Some [])"
proof -
  have r: "roleForTokenOf pending = []"
    using assms(3) by (auto simp: roleForTokenOf_def)
  have ne: "trimmedDeviceId pending \<noteq> []"
    using assms(2) by (auto simp: isValidId_def)
  show ?thesis
    using assms(2) ne
    by (simp add: approvePairing_Own [OF assms(1)] r update_conv' buildDevice_tokens
          existingTokensOf_def orEmpty_def split: option.splits)
qed

theorem approvePairing_no_role_keeps_tokens_witness:
  "map_of [(''r1'', req_norole)] ''r1'' = Some req_norole
   \<and> isValidId (trimmedDeviceId req_norole) \<and> rq_role req_norole = None
   \<and> (\<exists>res device.
        approvePairing 5000 ''tok-1'' [(''r1'', req_norole)] [] ''r1'' = Inr res
      \<and> ar_deviceId res = ''dev-A''
      \<and> map_of (ar_updatedPairedByDeviceId res) (ar_deviceId res) = Some device
      \<and> pd_tokens device = Some [])"
proof -
  have own: "map_of [(''r1'', req_norole)] ''r1'' = Some req_norole"
    by simp
  have dev: "trimmedDeviceId req_norole = ''dev-A''"
    by (simp add: req_norole_def req_r1_def trimmedDeviceId_def trim_def isWhite_def)
  have h: "isValidId (trimmedDeviceId req_norole)" "rq_role req_norole = None"
    by (simp_all add: dev example_ids) (simp add: req_norole_def)
  have res: "\<And>res. approvePairing 5000 ''tok-1'' [(''r1'', req_norole)] [] ''r1'' = Inr res
               \<Longrightarrow> ar_deviceId res = ''dev-A''"
    by (auto elim!: approvePairing_InrD simp: dev)
  from approvePairing_no_role_keeps_tokens [OF own h(1), of 5000 "''tok-1''" "[]"] h(2)
  obtain res device where
    "approvePairing 5000 ''tok-1'' [(''r1'', req_norole)] [] ''r1'' = Inr res"
    "map_of (ar_updatedPairedByDeviceId res) (ar_deviceId res) = Some device"
    "pd_tokens device = Some []"
    by auto
  with res [of res] own h show ?thesis
    by blast
qed

text \<open>
  Claim C10. When an approval rotates a token (the request's role is not blank), the
  scopes of the new token are the sorted list without repetitions of the request's scope
  entries that count (strings, trimmed, blank ones left out). The scopes stored on the
  device before do not enter, so the token's scopes can differ from the merged scopes of
  the same record.
\<close>

theorem token_scopes_from_request:
  assumes "approvePairing now fresh pendingById pairedByDeviceId requestId = Inr res"
    and "map_of pendingById requestId = Some pending"
    and "roleForTokenOf pending \<noteq> []"
  shows "\<exists>device toks tk.
      map_of (ar_updatedPairedByDeviceId res) (ar_deviceId res) = Some device
    \<and> pd_tokens device = Some toks \<and> map_of toks (roleForTokenOf pending) = Some tk
    \<and> tk_scopes tk = uniqSortedStrings (orEmpty (rq_scopes pending))
    \<and> tk_scopes tk = sorted_list_of_set (set (strEntries (orEmpty (rq_scopes pending))))
    \<and> pd_scopes device =
        Some (map JStr (sorted_list_of_set
          (set (strEntries (orEmpty (Option.bind (map_of pairedByDeviceId (ar_deviceId res)) pd_scopes)))
           \<union> set (strEntries (orEmpty (rq_scopes pending))))))"
proof -
  from assms(1) obtain p where p: "map_of pendingById requestId = Some p"
    and res: "res = \<lparr> ar_deviceId = trimmedDeviceId p,
                 ar_updatedPendingById = AList.delete requestId pendingById,
                 ar_updatedPairedByDeviceId =
                   AList.update (trimmedDeviceId p)
                     (buildDevice now fresh p (map_of pairedByDeviceId (trimmedDeviceId p))
                        (trimmedDeviceId p) (roleForTokenOf p))
                     pairedByDeviceId \<rparr>"
    by (rule approvePairing_InrD)
  from p assms(2) have same: "p = pending"
    by simp
  show ?thesis
    using assms(3)
    by (simp add: res same update_conv' buildDevice_tokens buildDevice_fields rotatedToken_fields
          uniqSortedStrings_eq mergeScopes_eq)
qed

theorem token_scopes_from_request_witness:
  "map_of [(''r1'', req_r1)] ''r1'' = Some req_r1 \<and> roleForTokenOf req_r1 \<noteq> []
   \<and> (\<exists>res device toks tk.
        approvePairing 5000 ''tok-1'' [(''r1'', req_r1)] [(''dev-A'', dev_A)] ''r1'' = Inr res
      \<and> map_of (ar_updatedPairedByDeviceId res) (ar_deviceId res) = Some device
      \<and> pd_tokens device = Some toks \<and> map_of toks ''operator'' = Some tk
      \<and> tk_scopes tk = [''chat'']
      \<and> pd_scopes device = Some [JStr ''admin'', JStr ''chat''])"
proof -
  have own: "map_of [(''r1'', req_r1)] ''r1'' = Some req_r1"
    by simp
  have ro: "roleForTokenOf req_r1 \<noteq> []"
    by (simp add: example_ids)
  let ?res = "\<lparr> ar_deviceId = ''dev-A'', ar_updatedPendingById = AList.delete ''r1'' [(''r1'', req_r1)],
                ar_updatedPairedByDeviceId =
                  AList.update ''dev-A''
                    (buildDevice 5000 ''tok-1'' req_r1 (map_of [(''dev-A'', dev_A)] ''dev-A'')
                       ''dev-A'' ''operator'')
                    [(''dev-A'', dev_A)] \<rparr>"
  have run: "approvePairing 5000 ''tok-1'' [(''r1'', req_r1)] [(''dev-A'', dev_A)] ''r1'' = Inr ?res"
    by (simp add: approvePairing_Own [OF own] example_ids)
  have e: "trim ''admin'' = ''admin''" "trim ''chat'' = ''chat''"
    by (simp_all add: trim_def isWhite_def)
  have s: "sorted_list_of_set {''chat''} = [''chat'']"
    "sorted_list_of_set {''admin'', ''chat''} = [''admin'', ''chat'']"
    by (simp_all add: sorted_list_of_set.fold_insort_key.insert_remove insort_key.simps)
  have scopes: "orEmpty (rq_scopes req_r1) = [JStr ''chat'']"
    "orEmpty (pd_scopes dev_A) = [JStr ''admin'']"
    by (simp_all add: req_r1_def dev_A_def orEmpty_def)
  from token_scopes_from_request [OF run own ro]
  have "\<exists>device toks tk.
        map_of (ar_updatedPairedByDeviceId ?res) (ar_deviceId ?res) = Some device
      \<and> pd_tokens device = Some toks \<and> map_of toks ''operator'' = Some tk
      \<and> tk_scopes tk = [''chat'']
      \<and> pd_scopes device = Some [JStr ''admin'', JStr ''chat'']"
    by (simp add: example_ids scopes e s del: AList.update.simps map_of.simps) blast
  with run own ro show ?thesis
    by (intro conjI) (simp, simp, rule exI [of _ ?res], simp)
qed

section \<open>The claims about the self-approval daemon\<close>

lemma example_other:
  "trimmedDeviceId req_other = ''dev-B''" "roleForTokenOf req_other = ''operator''"
  "trimmedDeviceId req_badrole = ''dev-A''" "roleForTokenOf req_badrole = ''bad role''"
  "\<not> isValidId ''bad role''" "trim ''dev-A'' = ''dev-A''"
  "trim ''/home/node/.openclaw'' \<noteq> []"
  by (simp_all add: req_other_def req_badrole_def req_r1_def trimmedDeviceId_def roleForTokenOf_def
        trim_def isWhite_def isValidId_def safeIdChar_def)

lemma example_runs:
  "main None (Some ''dev-A'') 0 [poll_none, poll_two] =
     Approved ''r1'' [(''r0'', req_other)]
       [(''dev-A'', buildDevice 1500 ''tok-1'' req_r1 None ''dev-A'' ''operator'')]"
  "main None (Some ''dev-A'') 0 [poll_swapped] =
     Approved ''r1'' [(''r0'', req_other)]
       [(''dev-A'', buildDevice 1500 ''tok-1'' req_r1 None ''dev-A'' ''operator'')]"
  "main None (Some ''dev-A'') 0 [poll_nowrite] =
     Rejected (PairedWriteError ''r1'' [(''r0'', req_other)])"
  "main None (Some ''dev-A'') 0 [poll_badrole] = Rejected (ApprovalError InvalidRole)"
  "main None (Some ''dev-A'') 0 [poll_none] = StillWaiting"
  by (simp_all add: main_def Let_def PAIRING_TIMEOUT_MS_def poll_none_def poll_two_def
        poll_swapped_def poll_nowrite_def poll_badrole_def findSelfRequest_def jsGet_def
        objectPrototypeNames_def example_ids example_other approvePairing_Own)

text \<open>
  Claim C2. Whatever the daemon observes, turn after turn, in the two documents: when a
  run makes an approval durable (it has replaced \<^verbatim>\<open>pending.json\<close>, and
  \<^verbatim>\<open>paired.json\<close> too unless that second write failed), the request it consumed was in
  the pending document of one of the observed turns, and its trimmed device id is the
  daemon's own identity. The pending document written is the observed one without that
  request, so every request of another device is still pending, wherever it stood in the
  document; the paired document written is the observed one with the daemon's own device
  id mapped to the new record, and nothing else changed.
\<close>

theorem daemon_approves_only_self:
  assumes "persisted (main envStateDir identityDeviceId start polls) = Some (requestId, pend, pairedOpt)"
  shows "\<exists>ident p q.
      identityDeviceId = Some ident \<and> p \<in> set polls
    \<and> map_of (pendingRead p) requestId = Some q \<and> trimmedDeviceId q = trim ident
    \<and> map_of pend = (map_of (pendingRead p))(requestId := None)
    \<and> (\<forall>other q'. map_of (pendingRead p) other = Some q' \<and> trimmedDeviceId q' \<noteq> trim ident
          \<longrightarrow> map_of pend other = Some q')
    \<and> (\<forall>paired. pairedOpt = Some paired \<longrightarrow>
          (\<exists>device. pd_deviceId device = trim ident
             \<and> map_of paired = (map_of (pairedRead p))(trim ident \<mapsto> device)))"
proof -
  from main_persisted [OF assms] obtain ident where ident: "identityDeviceId = Some ident"
    and loop: "persisted (pollLoop (trim ident) (start + PAIRING_TIMEOUT_MS) polls)
                 = Some (requestId, pend, pairedOpt)"
    by blast
  from pollLoop_persisted [OF loop] obtain p q res where p: "p \<in> set polls"
    and q: "map_of (pendingRead p) requestId = Some q"
    and self: "trimmedDeviceId q = trim ident"
    and run: "approvePairing (approveNow p) (freshToken p) (pendingRead p) (pairedRead p) requestId
                = Inr res"
    and pend: "pend = ar_updatedPendingById res"
    and paired: "pairedOpt = None \<or> pairedOpt = Some (ar_updatedPairedByDeviceId res)"
    by blast
  let ?device = "buildDevice (approveNow p) (freshToken p) q (map_of (pairedRead p) (trim ident))
                   (trim ident) (roleForTokenOf q)"
  from run q self have res: "res = \<lparr> ar_deviceId = trim ident,
        ar_updatedPendingById = AList.delete requestId (pendingRead p),
        ar_updatedPairedByDeviceId = AList.update (trim ident) ?device (pairedRead p) \<rparr>"
    by (auto elim: approvePairing_InrD)
  have a: "map_of pend = (map_of (pendingRead p))(requestId := None)"
    by (simp add: pend res delete_conv')
  have b: "map_of pend other = Some q'"
    if "map_of (pendingRead p) other = Some q'" "trimmedDeviceId q' \<noteq> trim ident" for other q'
  proof -
    from that q self have "other \<noteq> requestId" by auto
    with that(1) show ?thesis by (simp add: a)
  qed
  have c: "\<exists>device. pd_deviceId device = trim ident
             \<and> map_of paired = (map_of (pairedRead p))(trim ident \<mapsto> device)"
    if "pairedOpt = Some paired" for paired
    using that paired
    by (intro exI [of _ ?device]) (auto simp: res update_conv' buildDevice_fields)
  from ident p q self a b c show ?thesis
    by blast
qed

theorem daemon_approves_only_self_witness:
  "persisted (main None (Some ''dev-A'') 0 [poll_none, poll_two]) =
     Some (''r1'', [(''r0'', req_other)],
           Some [(''dev-A'', buildDevice 1500 ''tok-1'' req_r1 None ''dev-A'' ''operator'')])
   \<and> main None (Some ''dev-A'') 0 [poll_swapped] = main None (Some ''dev-A'') 0 [poll_none, poll_two]
   \<and> trimmedDeviceId req_other \<noteq> ''dev-A''
   \<and> (\<exists>ident p q.
        Some ''dev-A'' = Some ident \<and> p \<in> set [poll_none, poll_two]
      \<and> map_of (pendingRead p) ''r1'' = Some q \<and> trimmedDeviceId q = trim ident
      \<and> map_of [(''r0'', req_other)] = (map_of (pendingRead p))(''r1'' := None)
      \<and> (\<forall>other q'. map_of (pendingRead p) other = Some q' \<and> trimmedDeviceId q' \<noteq> trim ident
            \<longrightarrow> map_of [(''r0'', req_other)] other = Some q')
      \<and> (\<forall>paired.
            Some [(''dev-A'', buildDevice 1500 ''tok-1'' req_r1 None ''dev-A'' ''operator'')] = Some paired
            \<longrightarrow> (\<exists>device. pd_deviceId device = trim ident
                   \<and> map_of paired = (map_of (pairedRead p))(trim ident \<mapsto> device))))"
proof -
  have run: "persisted (main None (Some ''dev-A'') 0 [poll_none, poll_two]) =
     Some (''r1'', [(''r0'', req_other)],
           Some [(''dev-A'', buildDevice 1500 ''tok-1'' req_r1 None ''dev-A'' ''operator'')])"
    by (simp add: example_runs)
  have same: "main None (Some ''dev-A'') 0 [poll_swapped] = main None (Some ''dev-A'') 0 [poll_none, poll_two]"
    by (simp add: example_runs)
  have other: "trimmedDeviceId req_other \<noteq> ''dev-A''"
    by (simp add: example_other)
  from run same other daemon_approves_only_self [OF run] show ?thesis
    by blast
qed

text \<open>
  Claim C9, as amended. The repository holds two versions of the daemon, and both print
  the error of a failed run. The standalone one ends with exit status 0 on every run, a
  failed one included. The one that calls the shared \<^verbatim>\<open>approvePairing\<close> ends with exit
  status 1 when its run fails, and only then; a failed run is one in which, in some turn,
  the approval threw or a write threw. The manual tool ends with status 0 only when the
  approval and both writes went through, and with status 1 otherwise.
\<close>

theorem daemon_exit_status:
  "exitStatusStandalone (mainStandalone envStateDir identityDeviceId start polls) = 0
   \<and> (\<forall>f. mainStandalone envStateDir identityDeviceId start polls = Rejected f \<longrightarrow>
         logged (mainStandalone envStateDir identityDeviceId start polls) = [LogAutoApproveFailed f])
   \<and> exitStatus (main envStateDir identityDeviceId start polls) =
       (case main envStateDir identityDeviceId start polls of Rejected f \<Rightarrow> 1 | _ \<Rightarrow> 0)
   \<and> (\<forall>f. main envStateDir identityDeviceId start polls = Rejected f \<longrightarrow>
         logged (main envStateDir identityDeviceId start polls) = [LogAutoApproveFailed f]
       \<and> (\<exists>p\<in>set polls.
             (\<exists>e requestId. f = ApprovalError e
                \<and> approvePairing (approveNow p) (freshToken p) (pendingRead p) (pairedRead p) requestId
                    = Inl e)
           \<or> (f = PendingWriteError \<and> \<not> pendingWriteOk p)
           \<or> (\<exists>requestId pend. f = PairedWriteError requestId pend \<and> \<not> pairedWriteOk p)))
   \<and> (fst (approveDevicePairingLocal arg now fresh pendingOk pairedOk st) = 0
       \<or> fst (approveDevicePairingLocal arg now fresh pendingOk pairedOk st) = 1)
   \<and> (fst (approveDevicePairingLocal arg now fresh pendingOk pairedOk st) = 0 \<longrightarrow>
         pendingOk \<and> pairedOk
       \<and> (\<exists>requestId res.
             approvePairing now fresh (pendingFile st) (pairedFile st) requestId = Inr res
           \<and> snd (approveDevicePairingLocal arg now fresh pendingOk pairedOk st)
               = \<lparr> pendingFile = ar_updatedPendingById res,
                   pairedFile = ar_updatedPairedByDeviceId res \<rparr>))"
proof -
  have standalone: "exitStatusStandalone (mainStandalone envStateDir identityDeviceId start polls) = 0"
    by (rule exitStatusStandalone_zero)
  have status: "exitStatus (main envStateDir identityDeviceId start polls) =
       (case main envStateDir identityDeviceId start polls of Rejected f \<Rightarrow> 1 | _ \<Rightarrow> 0)"
    by (cases "main envStateDir identityDeviceId start polls") simp_all
  have lines: "\<forall>f. mainStandalone envStateDir identityDeviceId start polls = Rejected f \<longrightarrow>
         logged (mainStandalone envStateDir identityDeviceId start polls) = [LogAutoApproveFailed f]"
    by simp
  have failure: "\<forall>f. main envStateDir identityDeviceId start polls = Rejected f \<longrightarrow>
         logged (main envStateDir identityDeviceId start polls) = [LogAutoApproveFailed f]
       \<and> (\<exists>p\<in>set polls.
             (\<exists>e requestId. f = ApprovalError e
                \<and> approvePairing (approveNow p) (freshToken p) (pendingRead p) (pairedRead p) requestId
                    = Inl e)
           \<or> (f = PendingWriteError \<and> \<not> pendingWriteOk p)
           \<or> (\<exists>requestId pend. f = PairedWriteError requestId pend \<and> \<not> pairedWriteOk p))"
  proof (intro allI impI)
    fix f
    assume r: "main envStateDir identityDeviceId start polls = Rejected f"
    from main_Rejected [OF r] pollLoop_Rejected have "\<exists>p\<in>set polls.
             (\<exists>e requestId. f = ApprovalError e
                \<and> approvePairing (approveNow p) (freshToken p) (pendingRead p) (pairedRead p) requestId
                    = Inl e)
           \<or> (f = PendingWriteError \<and> \<not> pendingWriteOk p)
           \<or> (\<exists>requestId pend. f = PairedWriteError requestId pend \<and> \<not> pairedWriteOk p)"
      by blast
    with r show "logged (main envStateDir identityDeviceId start polls) = [LogAutoApproveFailed f]
       \<and> (\<exists>p\<in>set polls.
             (\<exists>e requestId. f = ApprovalError e
                \<and> approvePairing (approveNow p) (freshToken p) (pendingRead p) (pairedRead p) requestId
                    = Inl e)
           \<or> (f = PendingWriteError \<and> \<not> pendingWriteOk p)
           \<or> (\<exists>requestId pend. f = PairedWriteError requestId pend \<and> \<not> pairedWriteOk p))"
      by simp
  qed
  from standalone lines status failure tool_status tool_success show ?thesis
    by blast
qed

lemma example_standalone:
  "mainStandalone None (Some ''dev-A'') 0 [poll_nowrite] =
     Rejected (PairedWriteError ''r1'' [(''r0'', req_other)])"
  by (simp add: mainStandalone_def Let_def poll_two_def poll_nowrite_def findSelfRequest_def
        jsGet_def objectPrototypeNames_def example_ids example_other)

theorem daemon_exit_status_witness:
  "mainStandalone None (Some ''dev-A'') 0 [poll_nowrite] =
     Rejected (PairedWriteError ''r1'' [(''r0'', req_other)])
   \<and> exitStatusStandalone (mainStandalone None (Some ''dev-A'') 0 [poll_nowrite]) = 0
   \<and> logged (mainStandalone None (Some ''dev-A'') 0 [poll_nowrite]) =
       [LogAutoApproveFailed (PairedWriteError ''r1'' [(''r0'', req_other)])]
   \<and> main None (Some ''dev-A'') 0 [poll_nowrite] =
       Rejected (PairedWriteError ''r1'' [(''r0'', req_other)])
   \<and> exitStatus (main None (Some ''dev-A'') 0 [poll_nowrite]) = 1
   \<and> exitStatus (main None (Some ''dev-A'') 0 [poll_none, poll_two]) = 0
   \<and> approveDevicePairingLocal (Some ''r1'') 5000 ''tok-1'' True True
        \<lparr> pendingFile = [(''r1'', req_etc)], pairedFile = [] \<rparr>
      = (1, \<lparr> pendingFile = [(''r1'', req_etc)], pairedFile = [] \<rparr>)
   \<and> approveDevicePairingLocal None 5000 ''tok-1'' True True
        \<lparr> pendingFile = [(''r1'', req_r1)], pairedFile = [] \<rparr>
      = (0, \<lparr> pendingFile = [],
              pairedFile = [(''dev-A'', buildDevice 5000 ''tok-1'' req_r1 None ''dev-A'' ''operator'')] \<rparr>)"
proof -
  have etc: "trimmedDeviceId req_etc = ''../etc''" "\<not> isValidId ''../etc''" "trim ''r1'' = ''r1''"
    by (simp_all add: req_etc_def req_r1_def trimmedDeviceId_def trim_def isWhite_def isValidId_def
          safeIdChar_def)
  have own: "map_of [(''r1'', req_etc)] ''r1'' = Some req_etc"
    "map_of [(''r1'', req_r1)] ''r1'' = Some req_r1"
    by simp_all
  have failing: "approveDevicePairingLocal (Some ''r1'') 5000 ''tok-1'' True True
        \<lparr> pendingFile = [(''r1'', req_etc)], pairedFile = [] \<rparr>
      = (1, \<lparr> pendingFile = [(''r1'', req_etc)], pairedFile = [] \<rparr>)"
    by (simp add: approveDevicePairingLocal_def jsGet_def approvePairing_Own [OF own(1)] etc)
  have passing: "approveDevicePairingLocal None 5000 ''tok-1'' True True
        \<lparr> pendingFile = [(''r1'', req_r1)], pairedFile = [] \<rparr>
      = (0, \<lparr> pendingFile = [],
              pairedFile = [(''dev-A'', buildDevice 5000 ''tok-1'' req_r1 None ''dev-A'' ''operator'')] \<rparr>)"
    by (simp add: approveDevicePairingLocal_def byMostRecent_def jsGet_def
          approvePairing_Own [OF own(2)] example_ids)
  show ?thesis
    using daemon_exit_status [where envStateDir = None and identityDeviceId = "Some ''dev-A''"
        and start = 0 and polls = "[poll_nowrite]" and arg = None and now = 5000
        and fresh = "''tok-1''" and pendingOk = True and pairedOk = True
        and st = "\<lparr> pendingFile = [(''r1'', req_r1)], pairedFile = [] \<rparr>"]
      daemon_exit_status [where envStateDir = None and identityDeviceId = "Some ''dev-A''"
        and start = 0 and polls = "[poll_none, poll_two]" and arg = "Some ''r1''" and now = 5000
        and fresh = "''tok-1''" and pendingOk = True and pairedOk = True
        and st = "\<lparr> pendingFile = [(''r1'', req_etc)], pairedFile = [] \<rparr>"]
    by (simp add: example_runs example_standalone failing passing)
qed

text \<open>
  The claim as worded fails on the version that calls \<^verbatim>\<open>approvePairing\<close>: when the
  approval throws (here on a role with a space in it), the run is rejected and the exit
  status is 1.
\<close>

theorem daemon_exit_status_counterexample:
  "main None (Some ''dev-A'') 0 [poll_badrole] = Rejected (ApprovalError InvalidRole)
   \<and> logged (main None (Some ''dev-A'') 0 [poll_badrole]) =
       [LogAutoApproveFailed (ApprovalError InvalidRole)]
   \<and> exitStatus (main None (Some ''dev-A'') 0 [poll_badrole]) = 1"
  by (simp add: example_runs)

section \<open>The claims about the credential sync\<close>

text \<open>
  Claim C6, as amended. Two cycles on the same source file, the first one's write (if any)
  having gone through: when the source's \<^verbatim>\<open>last_refresh\<close> parses to an instant, or
  the two cycles read the same clock, the second cycle writes nothing and leaves the
  store file as the first left it. In every cycle, when the profile built from the source
  is, field for field, the profile stored under \<^verbatim>\<open>openai-codex:default\<close>,
  \<^verbatim>\<open>syncOnce\<close> skips the write.
\<close>

theorem sync_idempotent:
  assumes "later = earlier
           \<or> (case codexFile of Some codex \<Rightarrow> hasValidLastRefresh parseDate codex | None \<Rightarrow> True)"
  shows "(\<forall>written. syncOnce parseDate later codexFile
                      (syncCycle parseDate earlier True codexFile storeFile) \<noteq> Synced written)
       \<and> syncCycle parseDate later writeOk codexFile (syncCycle parseDate earlier True codexFile storeFile)
           = syncCycle parseDate earlier True codexFile storeFile
       \<and> (\<forall>codex nextProfile anyStore.
            buildProfile parseDate later codex = Some nextProfile
            \<and> profilesEqual (storedProfile anyStore) nextProfile
            \<longrightarrow> syncOnce parseDate later (Some codex) anyStore = UpToDate)"
proof -
  let ?after = "syncCycle parseDate earlier True codexFile storeFile"
  have second: "syncOnce parseDate later codexFile ?after \<in> {SourceUnreadable, TokensMissing, UpToDate}"
  proof (cases codexFile)
    case None
    then show ?thesis by (simp add: syncOnce_def)
  next
    case (Some codex)
    with assms have stable: "buildProfile parseDate later codex = buildProfile parseDate earlier codex"
      by (auto intro: buildProfile_stable)
    show ?thesis
    proof (cases "buildProfile parseDate earlier codex")
      case None
      with stable Some show ?thesis by (simp add: syncOnce_None)
    next
      case (Some nextProfile)
      with stable have two: "buildProfile parseDate later codex = Some nextProfile"
        by simp
      from \<open>codexFile = Some codex\<close> show ?thesis
        by (simp add: syncOnce_Some [OF two] syncCycle_stored [OF Some])
    qed
  qed
  then have no_write: "\<forall>written. syncOnce parseDate later codexFile ?after \<noteq> Synced written"
    by auto
  from second have unchanged: "syncCycle parseDate later writeOk codexFile ?after = ?after"
    by (auto simp: syncCycle_def [of parseDate later])
  have skip: "\<forall>codex nextProfile anyStore.
            buildProfile parseDate later codex = Some nextProfile
            \<and> profilesEqual (storedProfile anyStore) nextProfile
            \<longrightarrow> syncOnce parseDate later (Some codex) anyStore = UpToDate"
    by (auto simp: syncOnce_Some profilesEqual_iff)
  from no_write unchanged skip show ?thesis
    by blast
qed

lemma example_profiles:
  "buildProfile parse_example now codex_dated = Some (profile_example 1767229200000)"
  "buildProfile parse_nothing now codex_plain = Some (profile_example (now + 3600000))"
  "hasValidLastRefresh parse_example codex_dated"
  by (simp_all add: buildProfile_def codex_dated_def codex_plain_def parse_example_def
        parse_nothing_def profile_example_def hasValidLastRefresh_def trim_def isWhite_def)

theorem sync_idempotent_witness:
  "hasValidLastRefresh parse_example codex_dated
   \<and> syncCycle parse_example 1000 True (Some codex_dated) None =
       Some \<lparr> as_version = Some (JNum 1),
              as_profiles = Some [(PROFILE_ID, profile_example 1767229200000)] \<rparr>
   \<and> syncOnce parse_example 6000 (Some codex_dated)
        (syncCycle parse_example 1000 True (Some codex_dated) None) = UpToDate
   \<and> syncCycle parse_example 6000 True (Some codex_dated)
        (syncCycle parse_example 1000 True (Some codex_dated) None)
      = syncCycle parse_example 1000 True (Some codex_dated) None"
proof -
  have valid: "hasValidLastRefresh parse_example codex_dated"
    by (rule example_profiles)
  have first: "syncCycle parse_example 1000 True (Some codex_dated) None =
       Some \<lparr> as_version = Some (JNum 1),
              as_profiles = Some [(PROFILE_ID, profile_example 1767229200000)] \<rparr>"
    by (simp add: syncCycle_def syncOnce_Some [OF example_profiles(1)] storedProfile_def)
  have second: "syncOnce parse_example 6000 (Some codex_dated)
        (Some \<lparr> as_version = Some (JNum 1),
               as_profiles = Some [(PROFILE_ID, profile_example 1767229200000)] \<rparr>) = UpToDate"
    by (simp add: syncOnce_Some [OF example_profiles(1)] storedProfile_def)
  show ?thesis
    using valid second
      sync_idempotent [where later = 6000 and earlier = 1000 and codexFile = "Some codex_dated"
        and parseDate = parse_example and storeFile = None and writeOk = True]
    by (simp add: first)
qed

text \<open>
  The claim as worded fails: on a source file without \<^verbatim>\<open>last_refresh\<close> the expiry
  is the clock plus one hour, so a second cycle five seconds later builds another profile
  and writes it.
\<close>

theorem sync_rewrites_counterexample:
  "syncCycle parse_nothing 1000 True (Some codex_plain) None =
     Some \<lparr> as_version = Some (JNum 1), as_profiles = Some [(PROFILE_ID, profile_example 3601000)] \<rparr>
   \<and> syncOnce parse_nothing 6000 (Some codex_plain)
        (syncCycle parse_nothing 1000 True (Some codex_plain) None) =
     Synced \<lparr> as_version = Some (JNum 1),
              as_profiles = Some [(PROFILE_ID, profile_example 3606000)] \<rparr>"
proof -
  have p: "buildProfile parse_nothing 1000 codex_plain = Some (profile_example 3601000)"
    "buildProfile parse_nothing 6000 codex_plain = Some (profile_example 3606000)"
    by (simp_all add: example_profiles)
  have first: "syncCycle parse_nothing 1000 True (Some codex_plain) None =
     Some \<lparr> as_version = Some (JNum 1), as_profiles = Some [(PROFILE_ID, profile_example 3601000)] \<rparr>"
    by (simp add: syncCycle_def syncOnce_Some [OF p(1)] storedProfile_def)
  show ?thesis
    unfolding first
    by (simp add: syncOnce_Some [OF p(2)] storedProfile_def profile_example_def)
qed

text \<open>
  Claim C7. Every store that \<^verbatim>\<open>syncOnce\<close> writes has the version of the store it
  found, when that store exists and its version is a number; it has the version 1 when no
  store was found or the version of the one found is not a number.
\<close>

theorem sync_preserves_version:
  assumes "syncOnce parseDate now codexFile storeFile = Synced written"
  shows "(\<forall>existing n. storeFile = Some existing \<and> as_version existing = Some (JNum n)
            \<longrightarrow> as_version written = Some (JNum n))
       \<and> (storeFile = None
           \<or> (\<exists>existing. storeFile = Some existing \<and> (\<forall>n. as_version existing \<noteq> Some (JNum n)))
            \<longrightarrow> as_version written = Some (JNum 1))"
proof -
  from assms obtain codex nextProfile where
    "codexFile = Some codex" "buildProfile parseDate now codex = Some nextProfile"
    by (auto simp: syncOnce_def split: option.splits)
  with assms have written: "as_version written =
      Some (JNum (case storeFile of
                    Some existing \<Rightarrow> (case as_version existing of Some (JNum n) \<Rightarrow> n | _ \<Rightarrow> 1)
                  | None \<Rightarrow> 1))"
    by (auto simp: syncOnce_Some split: if_splits)
  show ?thesis
    unfolding written
    by (auto split: option.splits jsval.splits)
qed

theorem sync_preserves_version_witness:
  "syncOnce parse_example 1000 (Some codex_dated) (Some store_v7) =
     Synced \<lparr> as_version = Some (JNum 7),
              as_profiles = Some [(PROFILE_ID, profile_example 1767229200000)] \<rparr>
   \<and> as_version store_v7 = Some (JNum 7)
   \<and> syncOnce parse_example 1000 (Some codex_dated) None =
     Synced \<lparr> as_version = Some (JNum 1),
              as_profiles = Some [(PROFILE_ID, profile_example 1767229200000)] \<rparr>
   \<and> as_version store_vtext = Some (JStr ''7'')
   \<and> syncOnce parse_example 1000 (Some codex_dated) (Some store_vtext) =
     Synced \<lparr> as_version = Some (JNum 1),
              as_profiles = Some [(PROFILE_ID, profile_example 1767229200000)] \<rparr>"
proof -
  have a: "syncOnce parse_example 1000 (Some codex_dated) (Some store_v7) =
     Synced \<lparr> as_version = Some (JNum 7),
              as_profiles = Some [(PROFILE_ID, profile_example 1767229200000)] \<rparr>"
    by (simp add: syncOnce_Some [OF example_profiles(1)] storedProfile_def store_v7_def)
  have b: "syncOnce parse_example 1000 (Some codex_dated) None =
     Synced \<lparr> as_version = Some (JNum 1),
              as_profiles = Some [(PROFILE_ID, profile_example 1767229200000)] \<rparr>"
    by (simp add: syncOnce_Some [OF example_profiles(1)] storedProfile_def)
  have c: "syncOnce parse_example 1000 (Some codex_dated) (Some store_vtext) =
     Synced \<lparr> as_version = Some (JNum 1),
              as_profiles = Some [(PROFILE_ID, profile_example 1767229200000)] \<rparr>"
    by (simp add: syncOnce_Some [OF example_profiles(1)] storedProfile_def store_vtext_def)
  have v: "as_version store_v7 = Some (JNum 7)" "as_version store_vtext = Some (JStr ''7'')"
    by (simp_all add: store_v7_def store_vtext_def)
  from sync_preserves_version [OF a] sync_preserves_version [OF b] sync_preserves_version [OF c]
    a b c v
  show ?thesis
    by simp
qed

end
